theory Spec2Isabelle
  imports Complex_Main "HOL-Library.Code_Target_Nat"
begin

section \<open>The customer survey cleaning script\<close>

text \<open>
  A shallow embedding of \<^verbatim>\<open>data_cleaning_project1.py\<close>: one linear script that builds a
  data frame from a literal list of rows, copies it, and applies a fixed sequence of
  cleaning steps to the copy.  The script is written against the pandas library; the
  library operations it calls (\<^verbatim>\<open>drop_duplicates\<close>, \<^verbatim>\<open>median\<close>, \<^verbatim>\<open>fillna\<close>, the
  \<^verbatim>\<open>.str\<close> methods, \<^verbatim>\<open>.loc\<close> assignment, \<^verbatim>\<open>to_datetime\<close>) are modelled by small
  functions of their documented behaviour, each introduced where it is first needed.

  Conventions of the model:
  \<^item> a missing cell (\<^verbatim>\<open>None\<close>, \<^verbatim>\<open>NaN\<close>) is \<open>None\<close>; a present cell is \<open>Some v\<close>;
  \<^item> a float cell holds an exact rational: the script only compares floats, picks list
    elements and halves the sum of two of them, which is exact in floating point for two
    ages (integers) and may differ from the rational in the last bit for two amounts;
  \<^item> text is a list of Unicode code points, as a Python \<^verbatim>\<open>str\<close> is; \<open>str\<close> reads a
    literal.  The white space of \<^verbatim>\<open>str.strip\<close> is modelled in full; the case tables
    cover Basic Latin, the Latin-1 Supplement and the code points their mappings lead to
    (see below), and every other code point is taken to have no case;
  \<^item> where the behaviour of pandas depends on its version (reading a date out of a
    string, assigning a float into a column of integers), that behaviour is a parameter
    of the script.
\<close>

subsection \<open>Data model\<close>

type_synonym unicode = "nat list"

definition str :: "string \<Rightarrow> unicode" where
  "str s = map of_char s"

text \<open>One row of the literal \<^verbatim>\<open>data\<close> list (lines 11-18), in column order (lines 20-21).\<close>

record survey_record =
  in_customer_id :: int
  in_name :: "unicode option"
  in_age :: int
  in_email :: "unicode option"
  in_survey_date :: "unicode option"
  in_satisfaction_rating :: int
  in_product_category :: "unicode option"
  in_purchase_amount :: "rat option"
  in_would_recommend :: "unicode option"
  in_comments :: "unicode option"

text \<open>
  A cell of the \<^verbatim>\<open>survey_date\<close> column: the text it is built with, or, after
  \<^verbatim>\<open>to_datetime\<close>, a timestamp (year, month, day) or the missing timestamp \<^verbatim>\<open>NaT\<close>.
\<close>

datatype date_cell = DateStr unicode | Timestamp nat nat nat | NaT

text \<open>
  One row of a data frame.  The \<^verbatim>\<open>age\<close> column is built from integers and becomes a
  float column when a median that is not a whole number is assigned into it (line 90),
  where pandas accepts that; its cells are floats throughout.  \<^verbatim>\<open>customer_id\<close> and
  \<^verbatim>\<open>satisfaction_rating\<close> only ever hold integers.
\<close>

record row =
  customer_id :: int
  name :: "unicode option"
  age :: "rat option"
  email :: "unicode option"
  survey_date :: date_cell
  satisfaction_rating :: int
  product_category :: "unicode option"
  purchase_amount :: "rat option"
  would_recommend :: "unicode option"
  comments :: "unicode option"

text \<open>A data frame: its rows in order, each with its index label.\<close>

type_synonym frame = "(nat \<times> row) list"

definition to_row :: "survey_record \<Rightarrow> row" where
  "to_row x =
     \<lparr>customer_id = in_customer_id x,
      name = in_name x,
      age = Some (of_int (in_age x)),
      email = in_email x,
      survey_date = (case in_survey_date x of None \<Rightarrow> NaT | Some s \<Rightarrow> DateStr s),
      satisfaction_rating = in_satisfaction_rating x,
      product_category = in_product_category x,
      purchase_amount = in_purchase_amount x,
      would_recommend = in_would_recommend x,
      comments = in_comments x\<rparr>"

text \<open>\<^verbatim>\<open>pd.DataFrame(data, columns=columns)\<close> (line 24): the rows, labelled \<open>0, 1, 2, ...\<close>\<close>

definition DataFrame :: "survey_record list \<Rightarrow> frame" where
  "DataFrame rows = enumerate 0 (map to_row rows)"

text \<open>Assigning a whole column, or the cells a mask selects (\<^verbatim>\<open>.loc[mask, col] = v\<close>).\<close>

definition on_rows :: "(row \<Rightarrow> row) \<Rightarrow> frame \<Rightarrow> frame" where
  "on_rows g f = map (\<lambda>(i, r). (i, g r)) f"

definition column :: "(row \<Rightarrow> 'a) \<Rightarrow> frame \<Rightarrow> 'a list" where
  "column c f = map (\<lambda>(i, r). c r) f"

definition index :: "frame \<Rightarrow> nat list" where
  "index f = map fst f"

subsection \<open>The literal dataset\<close>

definition mk :: "int \<Rightarrow> string \<Rightarrow> int \<Rightarrow> string \<Rightarrow> string \<Rightarrow> int \<Rightarrow> string \<Rightarrow> rat option
    \<Rightarrow> string \<Rightarrow> string \<Rightarrow> survey_record" where
  "mk i n a e d s p m w c =
     \<lparr>in_customer_id = i, in_name = Some (str n), in_age = a, in_email = Some (str e),
      in_survey_date = Some (str d), in_satisfaction_rating = s,
      in_product_category = Some (str p), in_purchase_amount = m,
      in_would_recommend = Some (str w), in_comments = Some (str c)\<rparr>"

definition data :: "survey_record list" where
  "data =
    [mk 1 ''John Smith'' 25 ''john@email.com'' ''2024-01-15'' 5 ''electronics''
        (Some (29999 / 100)) ''Yes'' ''Great product!'',
     mk 2 '' jane doe '' 150 ''JANE@EMAIL.COM'' ''01/16/2024'' 4 ''CLOTHING''
        (Some (895 / 10)) ''yes'' ''  Good quality  '',
     mk 1 ''John Smith'' 25 ''john@email.com'' ''2024-01-15'' 5 ''Electronics''
        (Some (29999 / 100)) ''Yes'' ''Great product!'',
     mk 3 ''Bob Johnson'' 30 '''' ''2024-01-17'' 3 ''Books''
        (Some 25) ''Maybe'' '''',
     mk 4 ''Alice Brown'' (- 5) ''alice@email.com'' ''17-01-2024'' 6 ''home & garden''
        (Some 450) ''NO'' ''Poor delivery'',
     mk 5 '''' 35 ''test@email.com'' ''2024/01/18'' 2 ''Clothing''
        None ''Yes'' '''']"

subsection \<open>Library operations on columns\<close>

text \<open>
  \<^verbatim>\<open>DataFrame.drop_duplicates()\<close> with its defaults: a row is dropped when an equal row
  (all columns equal, two missing cells counting as equal, the index label not compared)
  occurs before it; the rows kept retain their order and their labels.
\<close>

fun drop_seen :: "row list \<Rightarrow> frame \<Rightarrow> frame" where
  "drop_seen seen [] = []"
| "drop_seen seen ((i, r) # f) =
     (if r \<in> set seen then drop_seen seen f else (i, r) # drop_seen (r # seen) f)"

definition drop_duplicates :: "frame \<Rightarrow> frame" where
  "drop_duplicates f = drop_seen [] f"

text \<open>
  \<^verbatim>\<open>Series.median()\<close>: missing cells are skipped; the median of the rest is the middle
  element of the sorted values, or the mean of the two middle ones; with no value left
  the result is \<^verbatim>\<open>NaN\<close>.
\<close>

definition median :: "rat option list \<Rightarrow> rat option" where
  "median col =
     (let vs = sort (concat (map (\<lambda>c. case c of None \<Rightarrow> [] | Some v \<Rightarrow> [v]) col));
          n = length vs
      in if n = 0 then None
         else if odd n then Some (vs ! (n div 2))
         else Some ((vs ! (n div 2 - 1) + vs ! (n div 2)) / 2))"

text \<open>\<^verbatim>\<open>Series.fillna(v)\<close>: a missing cell takes the value \<open>v\<close> (itself possibly \<^verbatim>\<open>NaN\<close>).\<close>

definition fillna :: "'a option \<Rightarrow> 'a option \<Rightarrow> 'a option" where
  "fillna v c = (case c of None \<Rightarrow> v | Some x \<Rightarrow> Some x)"

text \<open>Comparisons of a float cell with a number: every comparison with \<^verbatim>\<open>NaN\<close> is false.\<close>

definition cell_lt :: "rat option \<Rightarrow> rat \<Rightarrow> bool" where
  "cell_lt c k = (case c of None \<Rightarrow> False | Some v \<Rightarrow> v < k)"

definition cell_gt :: "rat option \<Rightarrow> rat \<Rightarrow> bool" where
  "cell_gt c k = (case c of None \<Rightarrow> False | Some v \<Rightarrow> v > k)"

definition cell_ge :: "rat option \<Rightarrow> rat \<Rightarrow> bool" where
  "cell_ge c k = (case c of None \<Rightarrow> False | Some v \<Rightarrow> v \<ge> k)"

definition cell_le :: "rat option \<Rightarrow> rat \<Rightarrow> bool" where
  "cell_le c k = (case c of None \<Rightarrow> False | Some v \<Rightarrow> v \<le> k)"

subsection \<open>Python string methods\<close>

text \<open>
  The white space that \<^verbatim>\<open>str.strip()\<close> removes: the ASCII white space and separators
  (U+0009 to U+000D, U+001C to U+0020), next line U+0085, no-break space U+00A0, and the
  Unicode spaces U+1680, U+2000 to U+200A, U+2028, U+2029, U+202F, U+205F and U+3000.
\<close>

definition isspace :: "nat \<Rightarrow> bool" where
  "isspace c \<longleftrightarrow>
     (9 \<le> c \<and> c \<le> 13) \<or> (28 \<le> c \<and> c \<le> 32) \<or> c = 133 \<or> c = 160 \<or> c = 5760
     \<or> (8192 \<le> c \<and> c \<le> 8202) \<or> c = 8232 \<or> c = 8233 \<or> c = 8239 \<or> c = 8287 \<or> c = 12288"

text \<open>
  The case tables of the Unicode character database, for the code points of Basic Latin
  and the Latin-1 Supplement and for those their mappings lead to: U+0130 (capital I
  with dot above, whose lower case is the two code points \<open>i\<close> and combining dot above
  U+0307), U+0178 (the capital of U+00FF), U+039C and U+03BC (the capital of the micro
  sign U+00B5, and its lower case).  The title case of sharp s U+00DF is the two letters
  \<open>Ss\<close>; feminine and masculine ordinal indicator (U+00AA, U+00BA) are cased and map to
  themselves; the combining dot U+0307 has no case.  A code point outside these is
  mapped to itself and taken to have no case: the rest of the tables is not modelled.
\<close>

definition tolower_full :: "nat \<Rightarrow> unicode" where
  "tolower_full c =
     (if (65 \<le> c \<and> c \<le> 90) \<or> (192 \<le> c \<and> c \<le> 222 \<and> c \<noteq> 215) then [c + 32]
      else if c = 304 then [105, 775]
      else if c = 376 then [255]
      else if c = 924 then [956]
      else [c])"

definition totitle_full :: "nat \<Rightarrow> unicode" where
  "totitle_full c =
     (if (97 \<le> c \<and> c \<le> 122) \<or> (224 \<le> c \<and> c \<le> 254 \<and> c \<noteq> 247) then [c - 32]
      else if c = 181 then [924]
      else if c = 223 then [83, 115]
      else if c = 255 then [376]
      else if c = 956 then [924]
      else [c])"

definition iscased :: "nat \<Rightarrow> bool" where
  "iscased c \<longleftrightarrow>
     (65 \<le> c \<and> c \<le> 90) \<or> (97 \<le> c \<and> c \<le> 122) \<or> c = 170 \<or> c = 181 \<or> c = 186
     \<or> (192 \<le> c \<and> c \<le> 255 \<and> c \<noteq> 215 \<and> c \<noteq> 247)
     \<or> c = 304 \<or> c = 376 \<or> c = 924 \<or> c = 956"

text \<open>\<^verbatim>\<open>str.strip()\<close>: leading and trailing white space removed.\<close>

definition strip :: "unicode \<Rightarrow> unicode" where
  "strip s = rev (dropWhile isspace (rev (dropWhile isspace s)))"

text \<open>\<^verbatim>\<open>str.lower()\<close>: each code point is replaced by its lower case.\<close>

definition lower :: "unicode \<Rightarrow> unicode" where
  "lower s = concat (map tolower_full s)"

text \<open>
  \<^verbatim>\<open>str.title()\<close>: a code point that follows a cased one is replaced by its lower case,
  any other code point by its title case; the flag carried along the string says
  whether the previous code point of the input was cased.
\<close>

fun title_from :: "bool \<Rightarrow> unicode \<Rightarrow> unicode" where
  "title_from previous_is_cased [] = []"
| "title_from previous_is_cased (c # cs) =
     (if previous_is_cased then tolower_full c else totitle_full c) @ title_from (iscased c) cs"

definition title :: "unicode \<Rightarrow> unicode" where
  "title s = title_from False s"

text \<open>A \<^verbatim>\<open>.str\<close> method applied to a column leaves a missing cell missing.\<close>

definition str_method :: "(unicode \<Rightarrow> unicode) \<Rightarrow> unicode option \<Rightarrow> unicode option" where
  "str_method m c = map_option m c"

subsection \<open>\<^verbatim>\<open>pd.to_datetime\<close>\<close>

text \<open>
  How pandas reads a date out of a string is the library's business, and differs between
  its versions; the script only fixes the error policy (\<^verbatim>\<open>errors='coerce'\<close>).  The
  string parser is therefore a parameter of the model: given the strings of the whole
  column (the library may infer one format for all of them) and one string, it returns
  the date read, or \<open>None\<close> when it cannot read one.
\<close>

type_synonym date_parser = "unicode list \<Rightarrow> unicode \<Rightarrow> (nat \<times> nat \<times> nat) option"

datatype errors_mode = Raise | Coerce

text \<open>
  The exceptions of the model: \<^verbatim>\<open>ValueError\<close>, raised by \<^verbatim>\<open>to_datetime\<close> for a string
  it cannot read, and \<^verbatim>\<open>TypeError\<close>, raised by an assignment the column cannot hold.
\<close>

datatype py_error = ValueError unicode | TypeError

definition texts :: "date_cell list \<Rightarrow> unicode list" where
  "texts col = concat (map (\<lambda>c. case c of DateStr s \<Rightarrow> [s] | _ \<Rightarrow> []) col)"

definition convert_cell :: "date_parser \<Rightarrow> unicode list \<Rightarrow> date_cell \<Rightarrow> py_error + date_cell" where
  "convert_cell P ctx c =
     (case c of
        DateStr s \<Rightarrow>
          (case P ctx s of
             None \<Rightarrow> Inl (ValueError s)
           | Some (y, m, d) \<Rightarrow> Inr (Timestamp y m d))
      | _ \<Rightarrow> Inr c)"

text \<open>
  With \<^verbatim>\<open>errors='raise'\<close> the first string that cannot be read raises; with
  \<^verbatim>\<open>errors='coerce'\<close> it becomes \<^verbatim>\<open>NaT\<close> and the conversion goes on.
\<close>

fun convert_cells :: "date_parser \<Rightarrow> errors_mode \<Rightarrow> unicode list \<Rightarrow> date_cell list
    \<Rightarrow> py_error + date_cell list" where
  "convert_cells P errors ctx [] = Inr []"
| "convert_cells P errors ctx (c # cs) =
     (case convert_cell P ctx c of
        Inl e \<Rightarrow>
          (case errors of
             Raise \<Rightarrow> Inl e
           | Coerce \<Rightarrow>
               (case convert_cells P errors ctx cs of
                  Inl e' \<Rightarrow> Inl e'
                | Inr ts \<Rightarrow> Inr (NaT # ts)))
      | Inr t \<Rightarrow>
          (case convert_cells P errors ctx cs of
             Inl e' \<Rightarrow> Inl e'
           | Inr ts \<Rightarrow> Inr (t # ts)))"

definition to_datetime :: "date_parser \<Rightarrow> errors_mode \<Rightarrow> date_cell list \<Rightarrow> py_error + date_cell list" where
  "to_datetime P errors col = convert_cells P errors (texts col) col"

subsection \<open>Assigning a float into a column of integers\<close>

text \<open>
  Lines 90 and 91 assign the median of the valid ages, a float, to the cells a boolean
  mask selects in the \<^verbatim>\<open>age\<close> column, which is built from integers.  What pandas
  does with a value that an integer column cannot hold depends on its version: pandas 1
  and 2 widen the column to floats (from 2.1 on with a \<^verbatim>\<open>FutureWarning\<close>), pandas 3
  raises \<^verbatim>\<open>TypeError\<close>.  That decision is a parameter of the model:
  \<open>R selection v\<close> says whether the library refuses to assign the value \<open>v\<close> under
  the mask \<open>selection\<close> (one truth value for each row) in the integer column.  (When
  the first assignment is accepted, the column either still holds integers or has been
  widened for the same value, which the second then assigns.)
\<close>

type_synonym refusal = "bool list \<Rightarrow> rat option \<Rightarrow> bool"

text \<open>pandas 1 and 2: no assignment is refused.\<close>

definition widen :: refusal where
  "widen selection v = False"


definition loc_assign_age :: "refusal \<Rightarrow> (row \<Rightarrow> bool) \<Rightarrow> rat option \<Rightarrow> frame \<Rightarrow> py_error + frame" where
  "loc_assign_age R selected v f =
     (if R (column selected f) v then Inl TypeError
      else Inr (on_rows (\<lambda>r. if selected r then r\<lparr>age := v\<rparr> else r) f))"

subsection \<open>The cleaning steps\<close>

text \<open>Lines 71-72: the median of the known purchase amounts fills the missing ones.\<close>

definition fill_purchase_amount :: "frame \<Rightarrow> frame" where
  "fill_purchase_amount f =
     (let median_amount = median (column purchase_amount f)
      in on_rows (\<lambda>r. r\<lparr>purchase_amount := fillna median_amount (purchase_amount r)\<rparr>) f)"

text \<open>Lines 76-77: placeholders for a missing name and a missing email.\<close>

definition fill_name_email :: "frame \<Rightarrow> frame" where
  "fill_name_email f =
     on_rows (\<lambda>r. r\<lparr>email := fillna (Some (str ''no_email@unknown.com'')) (email r)\<rparr>)
       (on_rows (\<lambda>r. r\<lparr>name := fillna (Some (str ''Unknown Customer'')) (name r)\<rparr>) f)"

text \<open>
  Lines 87-91: the median of the ages in \<open>[0, 120]\<close> replaces first the negative ages,
  then the ages above 120; the second mask is computed on the column as the first
  assignment left it.  Either assignment raises where the library refuses it.
\<close>

definition valid_ages :: "frame \<Rightarrow> rat option list" where
  "valid_ages f = column age (filter (\<lambda>(i, r). cell_ge (age r) 0 \<and> cell_le (age r) 120) f)"

definition repair_age :: "refusal \<Rightarrow> frame \<Rightarrow> py_error + frame" where
  "repair_age R f =
     (let median_age = median (valid_ages f)
      in case loc_assign_age R (\<lambda>r. cell_lt (age r) 0) median_age f of
           Inl e \<Rightarrow> Inl e
         | Inr f1 \<Rightarrow> loc_assign_age R (\<lambda>r. cell_gt (age r) 120) median_age f1)"

text \<open>
  Lines 100-101: ratings below 1 become 1, then ratings above 5 become 5.  The values
  assigned are integers, which the integer column holds.
\<close>

definition clamp_rating :: "frame \<Rightarrow> frame" where
  "clamp_rating f =
     on_rows (\<lambda>r. if satisfaction_rating r > 5 then r\<lparr>satisfaction_rating := 5\<rparr> else r)
       (on_rows (\<lambda>r. if satisfaction_rating r < 1 then r\<lparr>satisfaction_rating := 1\<rparr> else r) f)"

text \<open>Lines 109-127: the text columns, in the order of the script.\<close>

definition normalize_text :: "frame \<Rightarrow> frame" where
  "normalize_text f =
     (let f1 = on_rows (\<lambda>r. r\<lparr>name := str_method title (str_method strip (name r))\<rparr>) f;
          f2 = on_rows (\<lambda>r. r\<lparr>email := str_method lower (str_method strip (email r))\<rparr>) f1;
          f3 = on_rows (\<lambda>r. r\<lparr>product_category :=
                  str_method title (str_method strip (product_category r))\<rparr>) f2;
          f4 = on_rows (\<lambda>r. r\<lparr>would_recommend :=
                  str_method title (str_method strip (would_recommend r))\<rparr>) f3;
          f5 = on_rows (\<lambda>r. if would_recommend r = Some (str ''Maybe'')
                  then r\<lparr>would_recommend := Some (str ''No'')\<rparr> else r) f4
      in on_rows (\<lambda>r. r\<lparr>comments := str_method strip (comments r)\<rparr>) f5)"

text \<open>Assigning a converted column back into the frame (line 134).\<close>

definition set_survey_date :: "date_cell list \<Rightarrow> frame \<Rightarrow> frame" where
  "set_survey_date col f = map (\<lambda>((i, r), c). (i, r\<lparr>survey_date := c\<rparr>)) (zip f col)"

subsection \<open>Diagnostic counts\<close>

text \<open>\<^verbatim>\<open>df.isnull().sum().sum()\<close>: the number of missing cells of the frame.\<close>

definition null_cells :: "row \<Rightarrow> nat" where
  "null_cells r =
     (if name r = None then 1 else 0) + (if age r = None then 1 else 0)
   + (if email r = None then 1 else 0) + (if survey_date r = NaT then 1 else 0)
   + (if product_category r = None then 1 else 0) + (if purchase_amount r = None then 1 else 0)
   + (if would_recommend r = None then 1 else 0) + (if comments r = None then 1 else 0)"

definition isnull_sum :: "frame \<Rightarrow> nat" where
  "isnull_sum f = sum_list (column null_cells f)"

text \<open>\<^verbatim>\<open>((df['age'] < 0) | (df['age'] > 120)).sum()\<close>\<close>

definition invalid_ages :: "frame \<Rightarrow> nat" where
  "invalid_ages f = length (filter (\<lambda>(i, r). cell_lt (age r) 0 \<or> cell_gt (age r) 120) f)"

text \<open>\<^verbatim>\<open>((df['satisfaction_rating'] < 1) | (df['satisfaction_rating'] > 5)).sum()\<close>\<close>

definition invalid_ratings :: "frame \<Rightarrow> nat" where
  "invalid_ratings f =
     length (filter (\<lambda>(i, r). satisfaction_rating r < 1 \<or> satisfaction_rating r > 5) f)"

subsection \<open>The script\<close>

text \<open>
  The script's variables \<^verbatim>\<open>df\<close> and \<^verbatim>\<open>df_clean\<close> are references to data frame objects.
  The store maps each object to its current contents; \<^verbatim>\<open>df.copy()\<close> and
  \<^verbatim>\<open>drop_duplicates()\<close> make a new object, while a column assignment and a \<^verbatim>\<open>.loc\<close>
  assignment change the object \<^verbatim>\<open>df_clean\<close> refers to, in place.
\<close>

record state =
  heap :: "nat \<Rightarrow> frame option"
  fresh :: nat
  df :: nat
  df_clean :: nat

definition frame_at :: "state \<Rightarrow> nat \<Rightarrow> frame" where
  "frame_at s a = (case heap s a of None \<Rightarrow> [] | Some f \<Rightarrow> f)"

definition new_object :: "frame \<Rightarrow> state \<Rightarrow> nat \<times> state" where
  "new_object f s = (fresh s, s\<lparr>heap := (heap s)(fresh s \<mapsto> f), fresh := Suc (fresh s)\<rparr>)"

definition in_place :: "(frame \<Rightarrow> frame) \<Rightarrow> nat \<Rightarrow> state \<Rightarrow> state" where
  "in_place g a s = s\<lparr>heap := (heap s)(a \<mapsto> g (frame_at s a))\<rparr>"

text \<open>A step that may raise: the exception ends the run.\<close>

definition in_place_or_raise :: "(frame \<Rightarrow> py_error + frame) \<Rightarrow> nat \<Rightarrow> state \<Rightarrow> py_error + state" where
  "in_place_or_raise g a s =
     (case g (frame_at s a) of
        Inl e \<Rightarrow> Inl e
      | Inr f \<Rightarrow> Inr (s\<lparr>heap := (heap s)(a \<mapsto> f)\<rparr>))"

text \<open>The numbers the script prints at line 66 and at lines 140-145.\<close>

record report =
  removed_duplicates :: nat
  original_rows :: nat
  cleaned_rows :: nat
  missing_fixed :: nat
  ages_corrected :: nat
  ratings_fixed :: nat

text \<open>
  A run of the script on the rows \<open>rows\<close>, with the library's handling of a float
  assigned to an integer column \<open>R\<close> and its string parser \<open>P\<close>: an exception, or the
  final store and the numbers printed.
\<close>

definition script :: "refusal \<Rightarrow> date_parser \<Rightarrow> survey_record list \<Rightarrow> py_error + state \<times> report" where
  "script R P rows =
     (let s = \<lparr>heap = Map.empty, fresh = 0, df = 0, df_clean = 0\<rparr>;
          (a, s) = new_object (DataFrame rows) s;
          s = s\<lparr>df := a\<rparr>;
          (a, s) = new_object (frame_at s (df s)) s;
          s = s\<lparr>df_clean := a\<rparr>;
          initial_rows = length (frame_at s (df_clean s));
          (a, s) = new_object (drop_duplicates (frame_at s (df_clean s))) s;
          s = s\<lparr>df_clean := a\<rparr>;
          removed = initial_rows - length (frame_at s (df_clean s));
          s = in_place fill_purchase_amount (df_clean s) s;
          s = in_place fill_name_email (df_clean s) s
      in case in_place_or_raise (repair_age R) (df_clean s) s of
           Inl e \<Rightarrow> Inl e
         | Inr s \<Rightarrow>
             (let s = in_place clamp_rating (df_clean s) s;
                  s = in_place normalize_text (df_clean s) s
              in case to_datetime P Coerce (column survey_date (frame_at s (df_clean s))) of
                   Inl e \<Rightarrow> Inl e
                 | Inr dates \<Rightarrow>
                     (let s = in_place (set_survey_date dates) (df_clean s) s
                      in Inr (s,
                           \<lparr>removed_duplicates = removed,
                            original_rows = length (frame_at s (df s)),
                            cleaned_rows = length (frame_at s (df_clean s)),
                            missing_fixed = isnull_sum (frame_at s (df s)),
                            ages_corrected = invalid_ages (frame_at s (df s)),
                            ratings_fixed = invalid_ratings (frame_at s (df s))\<rparr>))))"

text \<open>The cleaned frame of a run, and the frame \<^verbatim>\<open>df\<close> refers to when the run ends.\<close>

definition cleaned :: "state \<times> report \<Rightarrow> frame" where
  "cleaned out = frame_at (fst out) (df_clean (fst out))"

definition original :: "state \<times> report \<Rightarrow> frame" where
  "original out = frame_at (fst out) (df (fst out))"

subsection \<open>A date parser: one format, inferred from the first string\<close>

text \<open>
  A model of what \<^verbatim>\<open>pd.to_datetime\<close> documents for a column of strings when no
  \<^verbatim>\<open>format\<close> is given (pandas 2): the format is inferred from the first string that is
  neither empty nor a spelling of \<^verbatim>\<open>NaT\<close> or \<^verbatim>\<open>NaN\<close>, read month-first unless that is
  impossible (\<^verbatim>\<open>dayfirst=False\<close>), and every string of the column is then read in that
  one format; a date outside the range of a nanosecond timestamp (22 September 1677 to
  11 April 2262) is not read.  The model covers the numeric dates \<^verbatim>\<open>Y-M-D\<close>,
  \<^verbatim>\<open>Y/M/D\<close>, \<^verbatim>\<open>A-B-Y\<close> and \<^verbatim>\<open>A/B/Y\<close> with a four-digit year and no surrounding
  white space; for a column whose first string is of another shape it reads nothing,
  where the library falls back on a per-string parser.
\<close>

definition isdigit :: "nat \<Rightarrow> bool" where
  "isdigit c \<longleftrightarrow> 48 \<le> c \<and> c \<le> 57"

definition number :: "unicode \<Rightarrow> nat" where
  "number s = foldl (\<lambda>n c. 10 * n + (c - 48)) 0 s"

definition date_fields :: "unicode \<Rightarrow> (nat \<times> unicode \<times> unicode \<times> unicode) option" where
  "date_fields s =
     (let a = takeWhile isdigit s in
      case dropWhile isdigit s of
        [] \<Rightarrow> None
      | sep # s' \<Rightarrow>
          (let b = takeWhile isdigit s' in
           case dropWhile isdigit s' of
             [] \<Rightarrow> None
           | sep' # c \<Rightarrow>
               if sep' = sep \<and> (sep = of_char CHR ''-'' \<or> sep = of_char CHR ''/'') \<and> a \<noteq> []
                  \<and> b \<noteq> [] \<and> c \<noteq> [] \<and> list_all isdigit c
               then Some (sep, a, b, c) else None))"

definition leap_year :: "nat \<Rightarrow> bool" where
  "leap_year y \<longleftrightarrow> y mod 4 = 0 \<and> (y mod 100 \<noteq> 0 \<or> y mod 400 = 0)"

definition days_in_month :: "nat \<Rightarrow> nat \<Rightarrow> nat" where
  "days_in_month y m =
     (if m = 2 then (if leap_year y then 29 else 28)
      else if m = 4 \<or> m = 6 \<or> m = 9 \<or> m = 11 then 30 else 31)"

text \<open>A date of the calendar, and a date a nanosecond timestamp can hold.\<close>

definition calendar_date :: "nat \<Rightarrow> nat \<Rightarrow> nat \<Rightarrow> bool" where
  "calendar_date y m d \<longleftrightarrow> 1 \<le> y \<and> 1 \<le> m \<and> m \<le> 12 \<and> 1 \<le> d \<and> d \<le> days_in_month y m"

definition in_bounds :: "nat \<Rightarrow> nat \<Rightarrow> nat \<Rightarrow> bool" where
  "in_bounds y m d \<longleftrightarrow>
     (1677 < y \<or> (y = 1677 \<and> (9 < m \<or> (m = 9 \<and> 22 \<le> d))))
     \<and> (y < 2262 \<or> (y = 2262 \<and> (m < 4 \<or> (m = 4 \<and> d \<le> 11))))"

definition valid_date :: "nat \<Rightarrow> nat \<Rightarrow> nat \<Rightarrow> bool" where
  "valid_date y m d \<longleftrightarrow> calendar_date y m d \<and> in_bounds y m d"

datatype date_format = YMD nat | MDY nat | DMY nat

definition short :: "unicode \<Rightarrow> bool" where
  "short t \<longleftrightarrow> length t = 1 \<or> length t = 2"

definition guess_datetime_format :: "unicode \<Rightarrow> date_format option" where
  "guess_datetime_format s =
     (case date_fields s of
        None \<Rightarrow> None
      | Some (sep, a, b, c) \<Rightarrow>
          if length a = 4 \<and> short b \<and> short c then
            (if calendar_date (number a) (number b) (number c) then Some (YMD sep) else None)
          else if short a \<and> short b \<and> length c = 4 then
            (if calendar_date (number c) (number a) (number b) then Some (MDY sep)
             else if calendar_date (number c) (number b) (number a) then Some (DMY sep)
             else None)
          else None)"

definition strptime :: "date_format \<Rightarrow> unicode \<Rightarrow> (nat \<times> nat \<times> nat) option" where
  "strptime fmt s =
     (case date_fields s of
        None \<Rightarrow> None
      | Some (sep, a, b, c) \<Rightarrow>
          (case fmt of
             YMD sep' \<Rightarrow>
               if sep = sep' \<and> length a = 4 \<and> short b \<and> short c
                  \<and> valid_date (number a) (number b) (number c)
               then Some (number a, number b, number c) else None
           | MDY sep' \<Rightarrow>
               if sep = sep' \<and> short a \<and> short b \<and> length c = 4
                  \<and> valid_date (number c) (number a) (number b)
               then Some (number c, number a, number b) else None
           | DMY sep' \<Rightarrow>
               if sep = sep' \<and> short a \<and> short b \<and> length c = 4
                  \<and> valid_date (number c) (number b) (number a)
               then Some (number c, number b, number a) else None))"

text \<open>The strings that stand for a missing date, which the inference skips.\<close>

definition nat_strings :: "unicode list" where
  "nat_strings = map str ['''', ''NaT'', ''nat'', ''NAT'', ''nan'', ''NaN'', ''NAN'']"

definition first_format_parser :: date_parser where
  "first_format_parser ctx s =
     (case filter (\<lambda>t. t \<notin> set nat_strings) ctx of
        [] \<Rightarrow> None
      | first # _ \<Rightarrow>
          (case guess_datetime_format first of
             None \<Rightarrow> None
           | Some fmt \<Rightarrow> strptime fmt s))"

subsection \<open>Notions used in the statements\<close>

text \<open>
  \<open>ages_repaired\<close> is the age repair where no assignment is refused; \<open>steps\<close> composes
  the cleaning steps between deduplication and date conversion, and \<open>dated\<close> is the date
  conversion with the \<^verbatim>\<open>coerce\<close> policy applied to each cell.  \<open>repaired\<close>, \<open>clamped\<close>
  and \<open>recommend\<close> state, for one cell, the rule the specification gives for an age, a
  rating and a recommendation; the properties below compare the columns the script
  produces with them.
\<close>

definition coerced :: "date_parser \<Rightarrow> unicode list \<Rightarrow> date_cell \<Rightarrow> date_cell" where
  "coerced P ctx c = (case convert_cell P ctx c of Inl e \<Rightarrow> NaT | Inr t \<Rightarrow> t)"

definition ages_repaired :: "frame \<Rightarrow> frame" where
  "ages_repaired f =
     (let median_age = median (valid_ages f);
          f1 = on_rows (\<lambda>r. if cell_lt (age r) 0 then r\<lparr>age := median_age\<rparr> else r) f
      in on_rows (\<lambda>r. if cell_gt (age r) 120 then r\<lparr>age := median_age\<rparr> else r) f1)"

definition steps :: "frame \<Rightarrow> frame" where
  "steps f = normalize_text (clamp_rating (ages_repaired (fill_name_email (fill_purchase_amount f))))"

definition dated :: "date_parser \<Rightarrow> frame \<Rightarrow> frame" where
  "dated P f = on_rows (\<lambda>r. r\<lparr>survey_date := coerced P (texts (column survey_date f)) (survey_date r)\<rparr>) f"

definition repaired :: "rat option \<Rightarrow> rat option \<Rightarrow> rat option" where
  "repaired m a = (if cell_lt a 0 \<or> cell_gt a 120 then m else a)"

definition clamped :: "int \<Rightarrow> int" where
  "clamped r = (if r < 1 then 1 else if r > 5 then 5 else r)"

definition recommend :: "unicode \<Rightarrow> unicode" where
  "recommend w = (if title (strip w) = str ''Maybe'' then str ''No'' else title (strip w))"

text \<open>A text with no white space at either end.\<close>

definition trimmed :: "unicode \<Rightarrow> bool" where
  "trimmed s \<longleftrightarrow> s = [] \<or> (\<not> isspace (hd s) \<and> \<not> isspace (last s))"

text \<open>
  ASCII text, and a frame whose text cells are all ASCII.  On ASCII text the string
  methods map code point to code point: \<open>ascii_lower\<close> and \<open>ascii_upper\<close> are the lower
  case and the title case of an ASCII code point.
\<close>

definition isascii :: "unicode \<Rightarrow> bool" where
  "isascii s = list_all (\<lambda>c. c < 128) s"

definition ascii_cell :: "unicode option \<Rightarrow> bool" where
  "ascii_cell c = (case c of None \<Rightarrow> True | Some s \<Rightarrow> isascii s)"

definition ascii_row :: "row \<Rightarrow> bool" where
  "ascii_row r \<longleftrightarrow> ascii_cell (name r) \<and> ascii_cell (email r) \<and> ascii_cell (product_category r)
     \<and> ascii_cell (would_recommend r) \<and> ascii_cell (comments r)"

definition ascii_frame :: "frame \<Rightarrow> bool" where
  "ascii_frame f = list_all (\<lambda>(i, r). ascii_row r) f"

definition ascii_lower :: "nat \<Rightarrow> nat" where
  "ascii_lower c = (if 65 \<le> c \<and> c \<le> 90 then c + 32 else c)"

definition ascii_upper :: "nat \<Rightarrow> nat" where
  "ascii_upper c = (if 97 \<le> c \<and> c \<le> 122 then c - 32 else c)"

fun ascii_title_from :: "bool \<Rightarrow> unicode \<Rightarrow> unicode" where
  "ascii_title_from previous_is_cased [] = []"
| "ascii_title_from previous_is_cased (c # cs) =
     (if previous_is_cased then ascii_lower c else ascii_upper c) # ascii_title_from (iscased c) cs"

section \<open>Properties\<close>

subsection \<open>The script as a function of its input\<close>

lemma convert_cells_Coerce: "convert_cells P Coerce ctx col = Inr (map (coerced P ctx) col)"
  by (induction col) (simp_all add: coerced_def split: sum.splits)

lemma set_survey_date_map:
  "set_survey_date (map h (column survey_date f)) f = on_rows (\<lambda>r. r\<lparr>survey_date := h (survey_date r)\<rparr>) f"
  by (induction f) (auto simp: set_survey_date_def column_def on_rows_def)

lemma new_object_rec:
  "new_object f \<lparr>heap = h, fresh = n, df = a, df_clean = b\<rparr>
     = (n, \<lparr>heap = h(n \<mapsto> f), fresh = Suc n, df = a, df_clean = b\<rparr>)"
  by (simp add: new_object_def)

lemma in_place_rec:
  "in_place g x \<lparr>heap = h, fresh = n, df = a, df_clean = b\<rparr>
     = \<lparr>heap = h(x \<mapsto> g (case h x of None \<Rightarrow> [] | Some f \<Rightarrow> f)), fresh = n, df = a, df_clean = b\<rparr>"
  by (simp add: in_place_def frame_at_def)

lemma frame_at_rec:
  "frame_at \<lparr>heap = h, fresh = n, df = a, df_clean = b\<rparr> x = (case h x of None \<Rightarrow> [] | Some f \<Rightarrow> f)"
  by (simp add: frame_at_def)

lemma in_place_or_raise_rec:
  "in_place_or_raise g x \<lparr>heap = h, fresh = n, df = a, df_clean = b\<rparr>
     = (case g (case h x of None \<Rightarrow> [] | Some f \<Rightarrow> f) of
          Inl e \<Rightarrow> Inl e
        | Inr f \<Rightarrow> Inr \<lparr>heap = h(x \<mapsto> f), fresh = n, df = a, df_clean = b\<rparr>)"
  by (simp add: in_place_or_raise_def frame_at_def split: sum.splits)

text \<open>
  The run as a function of its input: it ends with an exception exactly when the age
  repair does, and with the frame the remaining steps make of the repaired one otherwise.
\<close>

lemma script_cases:
  "script R P rows =
     (case repair_age R (fill_name_email (fill_purchase_amount (drop_duplicates (DataFrame rows)))) of
        Inl e \<Rightarrow> Inl e
      | Inr f \<Rightarrow>
          Inr (\<lparr>heap = [0 \<mapsto> DataFrame rows, Suc 0 \<mapsto> DataFrame rows,
                        Suc (Suc 0) \<mapsto> dated P (normalize_text (clamp_rating f))],
                 fresh = Suc (Suc (Suc 0)), df = 0, df_clean = Suc (Suc 0)\<rparr>,
               \<lparr>removed_duplicates = length (DataFrame rows) - length (drop_duplicates (DataFrame rows)),
                original_rows = length (DataFrame rows),
                cleaned_rows = length (dated P (normalize_text (clamp_rating f))),
                missing_fixed = isnull_sum (DataFrame rows),
                ages_corrected = invalid_ages (DataFrame rows),
                ratings_fixed = invalid_ratings (DataFrame rows)\<rparr>))"
proof (cases "repair_age R (fill_name_email (fill_purchase_amount (drop_duplicates (DataFrame rows))))")
  case (Inl e)
  show ?thesis
    unfolding script_def
    apply (simp only: Let_def new_object_rec in_place_rec in_place_or_raise_rec frame_at_rec prod.case state.simps fun_upd_same option.case)
    apply (simp only: Inl sum.case)
    done
next
  case (Inr f)
  show ?thesis
    unfolding script_def
    apply (simp only: Let_def new_object_rec in_place_rec in_place_or_raise_rec frame_at_rec prod.case state.simps fun_upd_same option.case)
    apply (simp only: Inr sum.case)
    apply (simp only: to_datetime_def convert_cells_Coerce sum.case set_survey_date_map Let_def in_place_rec frame_at_rec state.simps fun_upd_same option.case)
    apply (simp add: dated_def)
    done
qed

lemma loc_assign_age_widen:
  "loc_assign_age widen selected v f = Inr (on_rows (\<lambda>r. if selected r then r\<lparr>age := v\<rparr> else r) f)"
  by (simp add: loc_assign_age_def widen_def)

lemma repair_age_widen: "repair_age widen f = Inr (ages_repaired f)"
  by (simp add: repair_age_def ages_repaired_def Let_def loc_assign_age_widen)






lemma script_result:
  "script widen P rows =
     Inr (\<lparr>heap = [0 \<mapsto> DataFrame rows, Suc 0 \<mapsto> DataFrame rows,
                   Suc (Suc 0) \<mapsto> dated P (steps (drop_duplicates (DataFrame rows)))],
            fresh = Suc (Suc (Suc 0)), df = 0, df_clean = Suc (Suc 0)\<rparr>,
          \<lparr>removed_duplicates = length (DataFrame rows) - length (drop_duplicates (DataFrame rows)),
           original_rows = length (DataFrame rows),
           cleaned_rows = length (dated P (steps (drop_duplicates (DataFrame rows)))),
           missing_fixed = isnull_sum (DataFrame rows),
           ages_corrected = invalid_ages (DataFrame rows),
           ratings_fixed = invalid_ratings (DataFrame rows)\<rparr>)"
  by (simp only: script_cases repair_age_widen sum.case steps_def)

lemma column_on_rows: "column c (on_rows g f) = column (\<lambda>r. c (g r)) f"
  by (simp add: column_def on_rows_def split_def)

lemma index_on_rows: "index (on_rows g f) = index f"
  by (simp add: index_def on_rows_def split_def)

lemma column_eq_mapI: "(\<And>r. c r = h (d r)) \<Longrightarrow> column c f = map h (column d f)"
  by (simp add: column_def split_def)

lemma column_eqI: "(\<And>r. c r = d r) \<Longrightarrow> column c f = column d f"
  by (simp add: column_def)

lemma filter_on_rows: "filter (\<lambda>(i, r). p r) (on_rows g f) = on_rows g (filter (\<lambda>(i, r). p (g r)) f)"
  by (induction f) (auto simp: on_rows_def)

lemma valid_ages_on_rows: "(\<And>r. age (g r) = age r) \<Longrightarrow> valid_ages (on_rows g f) = valid_ages f"
  by (simp add: valid_ages_def filter_on_rows column_on_rows)

text \<open>What each step leaves alone.\<close>

lemma index_fill_purchase_amount: "index (fill_purchase_amount f) = index f"
  by (simp add: fill_purchase_amount_def Let_def index_on_rows)

lemma index_fill_name_email: "index (fill_name_email f) = index f"
  by (simp add: fill_name_email_def index_on_rows)

lemma index_ages_repaired: "index (ages_repaired f) = index f"
  by (simp add: ages_repaired_def Let_def index_on_rows)

lemma index_clamp_rating: "index (clamp_rating f) = index f"
  by (simp add: clamp_rating_def index_on_rows)

lemma index_normalize_text: "index (normalize_text f) = index f"
  by (simp add: normalize_text_def Let_def index_on_rows)

lemma index_steps: "index (steps f) = index f"
  by (simp add: steps_def index_fill_purchase_amount index_fill_name_email index_ages_repaired
      index_clamp_rating index_normalize_text)

lemma index_dated: "index (dated P f) = index f"
  by (simp add: dated_def index_on_rows)

lemma column_fill_purchase_amount:
  "(\<And>r v. c (r\<lparr>purchase_amount := v\<rparr>) = c r) \<Longrightarrow> column c (fill_purchase_amount f) = column c f"
  by (simp add: fill_purchase_amount_def Let_def column_on_rows)

lemma column_fill_name_email:
  "(\<And>r v. c (r\<lparr>name := v\<rparr>) = c r) \<Longrightarrow> (\<And>r v. c (r\<lparr>email := v\<rparr>) = c r)
    \<Longrightarrow> column c (fill_name_email f) = column c f"
  by (simp add: fill_name_email_def column_on_rows)

lemma column_ages_repaired:
  "(\<And>r v. c (r\<lparr>age := v\<rparr>) = c r) \<Longrightarrow> column c (ages_repaired f) = column c f"
  unfolding ages_repaired_def Let_def column_on_rows
  by (rule column_eqI) simp

lemma column_clamp_rating:
  "(\<And>r v. c (r\<lparr>satisfaction_rating := v\<rparr>) = c r) \<Longrightarrow> column c (clamp_rating f) = column c f"
  unfolding clamp_rating_def column_on_rows
  by (rule column_eqI) simp

lemma column_normalize_text:
  "(\<And>r v. c (r\<lparr>name := v\<rparr>) = c r) \<Longrightarrow> (\<And>r v. c (r\<lparr>email := v\<rparr>) = c r)
    \<Longrightarrow> (\<And>r v. c (r\<lparr>product_category := v\<rparr>) = c r)
    \<Longrightarrow> (\<And>r v. c (r\<lparr>would_recommend := v\<rparr>) = c r)
    \<Longrightarrow> (\<And>r v. c (r\<lparr>comments := v\<rparr>) = c r)
    \<Longrightarrow> column c (normalize_text f) = column c f"
  unfolding normalize_text_def Let_def column_on_rows
  by (rule column_eqI) simp

lemma column_dated:
  "(\<And>r v. c (r\<lparr>survey_date := v\<rparr>) = c r) \<Longrightarrow> column c (dated P f) = column c f"
  by (simp add: dated_def column_on_rows)

lemma valid_ages_filled: "valid_ages (fill_name_email (fill_purchase_amount f)) = valid_ages f"
  by (simp add: fill_name_email_def fill_purchase_amount_def Let_def valid_ages_on_rows)

text \<open>What each step does to its own column.\<close>

lemma column_age_ages_repaired:
  "column age (ages_repaired f) = map (repaired (median (valid_ages f))) (column age f)"
  unfolding ages_repaired_def Let_def column_on_rows
  by (rule column_eq_mapI) (simp add: repaired_def cell_lt_def cell_gt_def split: option.splits)

lemma column_rating_clamp_rating:
  "column satisfaction_rating (clamp_rating f) = map clamped (column satisfaction_rating f)"
  unfolding clamp_rating_def column_on_rows
  by (rule column_eq_mapI) (simp add: clamped_def)

lemma column_recommend_normalize_text:
  "column would_recommend (normalize_text f) = map (map_option recommend) (column would_recommend f)"
  unfolding normalize_text_def Let_def column_on_rows
  apply (rule column_eq_mapI)
  subgoal for r by (cases "would_recommend r") (simp_all add: recommend_def str_method_def)
  done

lemma column_age_steps:
  "column age (steps f)
     = map (repaired (median (valid_ages (fill_name_email (fill_purchase_amount f))))) (column age f)"
  by (simp add: steps_def column_normalize_text column_clamp_rating column_age_ages_repaired
      column_fill_name_email column_fill_purchase_amount)

lemma column_rating_steps:
  "column satisfaction_rating (steps f) = map clamped (column satisfaction_rating f)"
  by (simp add: steps_def column_normalize_text column_rating_clamp_rating column_ages_repaired
      column_fill_name_email column_fill_purchase_amount)

lemma column_recommend_steps:
  "column would_recommend (steps f) = map (map_option recommend) (column would_recommend f)"
  by (simp add: steps_def column_recommend_normalize_text column_clamp_rating column_ages_repaired
      column_fill_name_email column_fill_purchase_amount)


lemma column_id_steps: "column customer_id (steps f) = column customer_id f"
  by (simp add: steps_def column_normalize_text column_clamp_rating column_ages_repaired
      column_fill_name_email column_fill_purchase_amount)

lemma script_cleaned:
  "\<exists>out. script widen P rows = Inr out
     \<and> cleaned out = dated P (steps (drop_duplicates (DataFrame rows)))
     \<and> original out = DataFrame rows
     \<and> df (fst out) \<noteq> df_clean (fst out)
     \<and> snd out = \<lparr>removed_duplicates = length (DataFrame rows) - length (drop_duplicates (DataFrame rows)),
           original_rows = length (DataFrame rows),
           cleaned_rows = length (dated P (steps (drop_duplicates (DataFrame rows)))),
           missing_fixed = isnull_sum (DataFrame rows),
           ages_corrected = invalid_ages (DataFrame rows),
           ratings_fixed = invalid_ratings (DataFrame rows)\<rparr>"
  by (simp add: script_result cleaned_def original_def frame_at_def)

lemma clamped_range: "1 \<le> clamped r \<and> clamped r \<le> 5"
  by (simp add: clamped_def)

subsection \<open>The rows that deduplication keeps\<close>

lemma to_row_inj: "to_row x = to_row y \<longleftrightarrow> x = y"
proof
  assume h: "to_row x = to_row y"
  have d: "in_survey_date x = in_survey_date y"
    using h by (auto simp: to_row_def split: option.splits)
  show "x = y"
    using h d by (intro survey_record.equality) (simp_all add: to_row_def)
qed simp

lemma drop_seen_enumerate:
  "drop_seen seen (enumerate n xs)
     = filter (\<lambda>(k, r). r \<notin> set seen \<and> r \<notin> set (take (k - n) xs)) (enumerate n xs)"
proof (induction xs arbitrary: seen n)
  case Nil
  then show ?case by simp
next
  case (Cons x xs)
  have later: "(k, r) \<in> set (enumerate (Suc n) xs) \<Longrightarrow> take (k - n) (x # xs) = x # take (k - Suc n) xs"
    for k r
    by (auto simp: in_set_enumerate_eq Suc_diff_le take_Cons')
  show ?case
  proof (cases "x \<in> set seen")
    case True
    have "filter (\<lambda>(k, r). r \<notin> set seen \<and> r \<notin> set (take (k - Suc n) xs)) (enumerate (Suc n) xs)
        = filter (\<lambda>(k, r). r \<notin> set seen \<and> r \<notin> set (take (k - n) (x # xs))) (enumerate (Suc n) xs)"
      using True by (intro filter_cong refl) (auto simp: later)
    then show ?thesis using True Cons.IH [of seen "Suc n"] by simp
  next
    case False
    have "filter (\<lambda>(k, r). r \<notin> set (x # seen) \<and> r \<notin> set (take (k - Suc n) xs)) (enumerate (Suc n) xs)
        = filter (\<lambda>(k, r). r \<notin> set seen \<and> r \<notin> set (take (k - n) (x # xs))) (enumerate (Suc n) xs)"
      by (intro filter_cong refl) (auto simp: later)
    then show ?thesis using False Cons.IH [of "x # seen" "Suc n"] by simp
  qed
qed

lemma map_fst_filter_enumerate:
  "(\<And>k r. (k, r) \<in> set (enumerate n xs) \<Longrightarrow> P (k, r) = Q k)
    \<Longrightarrow> map fst (filter P (enumerate n xs)) = filter Q [n..<n + length xs]"
proof (induction xs arbitrary: n)
  case Nil
  then show ?case by simp
next
  case (Cons x xs)
  have "map fst (filter P (enumerate (Suc n) xs)) = filter Q [Suc n..<Suc n + length xs]"
    by (rule Cons.IH) (simp add: Cons.prems)
  moreover have "P (n, x) = Q n"
    by (rule Cons.prems) simp
  moreover have "[n..<n + length (x # xs)] = n # [Suc n..<Suc n + length xs]"
    by (subst upt_rec) simp
  ultimately show ?case by simp
qed

lemma index_drop_duplicates:
  "index (drop_duplicates (DataFrame rows))
     = filter (\<lambda>k. \<forall>j<k. rows ! j \<noteq> rows ! k) [0..<length rows]"
proof -
  let ?xs = "map to_row rows"
  have "(case (k, r) of (k, r) \<Rightarrow> r \<notin> set [] \<and> r \<notin> set (take (k - 0) ?xs))
          = (\<forall>j<k. rows ! j \<noteq> rows ! k)"
    if "(k, r) \<in> set (enumerate 0 ?xs)" for k r
  proof -
    from that have k: "k < length rows" and r: "r = to_row (rows ! k)"
      by (auto simp: in_set_enumerate_eq)
    have "r \<in> set (take k ?xs) \<longleftrightarrow> (\<exists>j<k. rows ! j = rows ! k)"
      using k by (auto simp: r in_set_conv_nth to_row_inj)
    then show ?thesis by auto
  qed
  then have "map fst (filter (\<lambda>(k, r). r \<notin> set [] \<and> r \<notin> set (take (k - 0) ?xs)) (enumerate 0 ?xs))
      = filter (\<lambda>k. \<forall>j<k. rows ! j \<noteq> rows ! k) [0..<0 + length ?xs]"
    by (rule map_fst_filter_enumerate)
  then show ?thesis
    by (simp add: index_def drop_duplicates_def DataFrame_def drop_seen_enumerate)
qed


lemma drop_duplicates_rows:
  "(k, r) \<in> set (drop_duplicates (DataFrame rows)) \<Longrightarrow> k < length rows \<and> r = to_row (rows ! k)"
  by (auto simp: drop_duplicates_def DataFrame_def drop_seen_enumerate in_set_enumerate_eq)

lemma column_drop_duplicates:
  "column c (drop_duplicates (DataFrame rows))
     = map (\<lambda>k. c (to_row (rows ! k))) (index (drop_duplicates (DataFrame rows)))"
  unfolding column_def index_def map_map
  by (rule map_cong) (auto dest: drop_duplicates_rows)

lemma first_occurrence_unique:
  assumes "j < length (rows :: 'a list)"
  shows "\<exists>!k. k \<in> set (filter (\<lambda>k. \<forall>i<k. rows ! i \<noteq> rows ! k) [0..<length rows])
      \<and> rows ! k = rows ! j"
proof -
  define k where "k = (LEAST k. rows ! k = rows ! j)"
  have eq: "rows ! k = rows ! j"
    unfolding k_def by (rule LeastI [of _ j]) simp
  have le: "k \<le> j"
    unfolding k_def by (rule Least_le) simp
  have first: "rows ! i \<noteq> rows ! k" if "i < k" for i
    using that not_less_Least [of i "\<lambda>k. rows ! k = rows ! j"] eq by (simp add: k_def)
  show ?thesis
  proof (rule ex1I [of _ k])
    show "k \<in> set (filter (\<lambda>k. \<forall>i<k. rows ! i \<noteq> rows ! k) [0..<length rows]) \<and> rows ! k = rows ! j"
      using eq le first assms by simp
  next
    fix k'
    assume h: "k' \<in> set (filter (\<lambda>k. \<forall>i<k. rows ! i \<noteq> rows ! k) [0..<length rows])
        \<and> rows ! k' = rows ! j"
    have "\<not> k < k'" using h eq by auto
    moreover have "\<not> k' < k" using first [of k'] h eq by auto
    ultimately show "k' = k" by simp
  qed
qed

subsection \<open>Rating clamp\<close>

text \<open>
  Claim C9.  The run (with \<open>widen\<close>) succeeds, and the rating of the cleaned row with
  index label \<open>k\<close> is the rating of input row \<open>k\<close> with a value below 1 replaced by 1
  and a value above 5 replaced by 5, a rating already in range being left as it is; so
  every rating of the cleaned frame lies between 1 and 5.
\<close>

theorem rating_clamp:
  "\<exists>out. script widen P rows = Inr out
     \<and> index (cleaned out) = index (drop_duplicates (DataFrame rows))
     \<and> column satisfaction_rating (cleaned out)
         = map (\<lambda>k. clamped (in_satisfaction_rating (rows ! k))) (index (cleaned out))
     \<and> (\<forall>r \<in> set (column satisfaction_rating (cleaned out)). 1 \<le> r \<and> r \<le> 5)"
proof -
  obtain out where out: "script widen P rows = Inr out"
      "cleaned out = dated P (steps (drop_duplicates (DataFrame rows)))"
    using script_cleaned by blast
  have "index (cleaned out) = index (drop_duplicates (DataFrame rows))"
    by (simp add: out index_dated index_steps)
  moreover have col: "column satisfaction_rating (cleaned out)
      = map (\<lambda>k. clamped (in_satisfaction_rating (rows ! k))) (index (cleaned out))"
    by (simp add: out column_dated column_rating_steps index_dated index_steps
        column_drop_duplicates to_row_def o_def)
  moreover have "\<forall>r \<in> set (column satisfaction_rating (cleaned out)). 1 \<le> r \<and> r \<le> 5"
    unfolding col using clamped_range by auto
  ultimately show ?thesis using out(1) by blast
qed

text \<open>On the literal dataset the rating 6 becomes 5 and the other ratings are kept.\<close>

theorem rating_clamp_witness:
  "case script widen first_format_parser data of
     Inl e \<Rightarrow> False
   | Inr out \<Rightarrow> column satisfaction_rating (cleaned out) = [5, 4, 5, 3, 5, 2]"
proof -
  have "index (drop_duplicates (DataFrame data)) = [0, 1, 2, 3, 4, 5]"
    by code_simp
  moreover have "map (\<lambda>k. clamped (in_satisfaction_rating (data ! k))) [0, 1, 2, 3, 4, 5]
      = [5, 4, 5, 3, 5, 2]"
    by code_simp
  ultimately show ?thesis
    using rating_clamp [of first_format_parser data] by auto
qed

subsection \<open>Recommendation mapping\<close>

lemma recommend_not_Maybe: "recommend w \<noteq> str ''Maybe''"
  by (simp add: recommend_def str_def)

text \<open>
  Claim C6.  The run (with \<open>widen\<close>) succeeds; the recommendation of the cleaned row
  with index label \<open>k\<close> is the one of input row \<open>k\<close>, trimmed and title-cased, and
  replaced by \<open>No\<close> when that trimmed, title-cased text is \<open>Maybe\<close> (the test is made
  on the title-cased text); so no row of the cleaned frame has the recommendation
  \<open>Maybe\<close>.
\<close>

theorem recommendation_mapping:
  "\<exists>out. script widen P rows = Inr out
     \<and> index (cleaned out) = index (drop_duplicates (DataFrame rows))
     \<and> column would_recommend (cleaned out)
         = map (\<lambda>k. map_option recommend (in_would_recommend (rows ! k))) (index (cleaned out))
     \<and> (\<forall>w \<in> set (column would_recommend (cleaned out)). w \<noteq> Some (str ''Maybe''))"
proof -
  obtain out where out: "script widen P rows = Inr out"
      "cleaned out = dated P (steps (drop_duplicates (DataFrame rows)))"
    using script_cleaned by blast
  have "index (cleaned out) = index (drop_duplicates (DataFrame rows))"
    by (simp add: out index_dated index_steps)
  moreover have col: "column would_recommend (cleaned out)
      = map (\<lambda>k. map_option recommend (in_would_recommend (rows ! k))) (index (cleaned out))"
    by (simp add: out column_dated column_recommend_steps index_dated index_steps
        column_drop_duplicates to_row_def o_def)
  moreover have "\<forall>w \<in> set (column would_recommend (cleaned out)). w \<noteq> Some (str ''Maybe'')"
    unfolding col using recommend_not_Maybe by auto
  ultimately show ?thesis using out(1) by blast
qed

text \<open>On the literal dataset: \<open>yes\<close> and \<open>NO\<close> are title-cased, \<open>Maybe\<close> becomes \<open>No\<close>.\<close>

theorem recommendation_mapping_witness:
  "case script widen first_format_parser data of
     Inl e \<Rightarrow> False
   | Inr out \<Rightarrow> column would_recommend (cleaned out)
       = [Some (str ''Yes''), Some (str ''Yes''), Some (str ''Yes''), Some (str ''No''), Some (str ''No''), Some (str ''Yes'')]"
proof -
  have "index (drop_duplicates (DataFrame data)) = [0, 1, 2, 3, 4, 5]"
    by code_simp
  moreover have "map (\<lambda>k. map_option recommend (in_would_recommend (data ! k))) [0, 1, 2, 3, 4, 5]
      = [Some (str ''Yes''), Some (str ''Yes''), Some (str ''Yes''), Some (str ''No''), Some (str ''No''), Some (str ''Yes'')]"
    by code_simp
  ultimately show ?thesis
    using recommendation_mapping [of first_format_parser data] by auto
qed

subsection \<open>The summary is computed on the original frame\<close>

text \<open>
  Claim C5.  The cleaning changes another object than the one \<^verbatim>\<open>df\<close> refers to: when
  the run ends \<^verbatim>\<open>df\<close> still holds the frame built from the input, and the improvement
  counts printed at lines 143-145 (missing values fixed, invalid ages corrected, invalid
  ratings fixed) are the defect counts of that original frame.
\<close>

theorem summary_counts_original:
  "\<exists>out. script widen P rows = Inr out
     \<and> original out = DataFrame rows
     \<and> df (fst out) \<noteq> df_clean (fst out)
     \<and> original_rows (snd out) = length rows
     \<and> missing_fixed (snd out) = isnull_sum (DataFrame rows)
     \<and> ages_corrected (snd out) = invalid_ages (DataFrame rows)
     \<and> ratings_fixed (snd out) = invalid_ratings (DataFrame rows)"
proof -
  obtain out where out: "script widen P rows = Inr out" "original out = DataFrame rows"
      "df (fst out) \<noteq> df_clean (fst out)"
      "snd out = \<lparr>removed_duplicates = length (DataFrame rows) - length (drop_duplicates (DataFrame rows)),
           original_rows = length (DataFrame rows),
           cleaned_rows = length (dated P (steps (drop_duplicates (DataFrame rows)))),
           missing_fixed = isnull_sum (DataFrame rows),
           ages_corrected = invalid_ages (DataFrame rows),
           ratings_fixed = invalid_ratings (DataFrame rows)\<rparr>"
    using script_cleaned by blast
  have "length (DataFrame rows) = length rows"
    by (simp add: DataFrame_def)
  then show ?thesis using out by simp
qed

text \<open>On the literal dataset the script prints 1 missing value, 2 invalid ages, 1 invalid rating.\<close>

theorem summary_counts_original_witness:
  "case script widen first_format_parser data of
     Inl e \<Rightarrow> False
   | Inr out \<Rightarrow> missing_fixed (snd out) = 1 \<and> ages_corrected (snd out) = 2
       \<and> ratings_fixed (snd out) = 1 \<and> original_rows (snd out) = 6"
proof -
  have "isnull_sum (DataFrame data) = 1" "invalid_ages (DataFrame data) = 2"
    "invalid_ratings (DataFrame data) = 1" "length data = 6"
    by code_simp+
  then show ?thesis
    using summary_counts_original [of first_format_parser data] by auto
qed

subsection \<open>Failure policy\<close>



lemma coerced_unparsed: "P ctx s = None \<Longrightarrow> coerced P ctx (DateStr s) = NaT"
  by (simp add: coerced_def convert_cell_def)

lemma convert_cells_Raise:
  "DateStr s \<in> set col \<Longrightarrow> P ctx s = None \<Longrightarrow> \<exists>e. convert_cells P Raise ctx col = Inl e"
  by (induction col) (auto simp: convert_cell_def split: sum.splits date_cell.splits option.splits)






subsection \<open>Deduplication\<close>

text \<open>
  Claim C3.  The run (with \<open>widen\<close>) succeeds, and the rows of the cleaned frame are,
  by their index labels, exactly the first occurrences among the input rows: the row at
  position \<open>k\<close> is kept when no earlier input row equals it in all ten fields, and
  dropped otherwise.
  So of the input rows equal to a given one exactly one is in the cleaned frame (the
  first), every later exact duplicate is dropped, and the kept row with label \<open>k\<close>
  carries the customer id of input row \<open>k\<close>.
\<close>

theorem deduplication_keeps_first:
  "\<exists>out. script widen P rows = Inr out
     \<and> index (cleaned out) = filter (\<lambda>k. \<forall>i<k. rows ! i \<noteq> rows ! k) [0..<length rows]
     \<and> column customer_id (cleaned out) = map (\<lambda>k. in_customer_id (rows ! k)) (index (cleaned out))
     \<and> (\<forall>j<length rows. \<exists>!k. k \<in> set (index (cleaned out)) \<and> rows ! k = rows ! j)
     \<and> (\<forall>j<length rows. \<forall>i<j. rows ! i = rows ! j \<longrightarrow> j \<notin> set (index (cleaned out)))"
proof -
  obtain out where out: "script widen P rows = Inr out"
      "cleaned out = dated P (steps (drop_duplicates (DataFrame rows)))"
    using script_cleaned by blast
  have idx: "index (cleaned out) = filter (\<lambda>k. \<forall>i<k. rows ! i \<noteq> rows ! k) [0..<length rows]"
    by (simp add: out index_dated index_steps index_drop_duplicates)
  have "column customer_id (cleaned out) = column customer_id (drop_duplicates (DataFrame rows))"
    by (simp add: out column_dated column_id_steps)
  also have "\<dots> = map (\<lambda>k. customer_id (to_row (rows ! k))) (index (drop_duplicates (DataFrame rows)))"
    by (rule column_drop_duplicates)
  also have "\<dots> = map (\<lambda>k. in_customer_id (rows ! k)) (index (cleaned out))"
    by (simp add: out index_dated index_steps to_row_def)
  finally have ids: "column customer_id (cleaned out)
      = map (\<lambda>k. in_customer_id (rows ! k)) (index (cleaned out))" .
  have one: "\<forall>j<length rows. \<exists>!k. k \<in> set (index (cleaned out)) \<and> rows ! k = rows ! j"
    unfolding idx using first_occurrence_unique by blast
  have later: "\<forall>j<length rows. \<forall>i<j. rows ! i = rows ! j \<longrightarrow> j \<notin> set (index (cleaned out))"
    unfolding idx by auto
  show ?thesis using out(1) idx ids one later by blast
qed

text \<open>Five rows of which the third repeats the first and the fifth the second.\<close>

theorem deduplication_keeps_first_witness:
  "case script widen first_format_parser [data ! 0, data ! 1, data ! 0, data ! 3, data ! 1] of
     Inl e \<Rightarrow> False
   | Inr out \<Rightarrow> index (cleaned out) = [0, 1, 3] \<and> column customer_id (cleaned out) = [1, 2, 3]"
proof -
  let ?rows = "[data ! 0, data ! 1, data ! 0, data ! 3, data ! 1]"
  have "index (drop_duplicates (DataFrame ?rows)) = [0, 1, 3]"
    by code_simp
  moreover have "map (\<lambda>k. in_customer_id (?rows ! k)) [0, 1, 3] = [1, 2, 3]"
    by code_simp
  ultimately show ?thesis
    using deduplication_keeps_first [of first_format_parser ?rows]
    by (auto simp: index_drop_duplicates)
qed

subsection \<open>Text normalization is idempotent on ASCII text\<close>

text \<open>On ASCII text the string methods work code point by code point.\<close>

lemma tolower_full_ascii: "c < 128 \<Longrightarrow> tolower_full c = [ascii_lower c]"
  by (simp add: tolower_full_def ascii_lower_def)

lemma totitle_full_ascii: "c < 128 \<Longrightarrow> totitle_full c = [ascii_upper c]"
  by (simp add: totitle_full_def ascii_upper_def)

lemma title_from_ascii: "isascii s \<Longrightarrow> title_from b s = ascii_title_from b s"
  by (induction s arbitrary: b) (simp_all add: isascii_def tolower_full_ascii totitle_full_ascii)

lemma lower_ascii: "isascii s \<Longrightarrow> lower s = map ascii_lower s"
  by (induction s) (simp_all add: isascii_def lower_def tolower_full_ascii)

lemma isascii_strip: "isascii s \<Longrightarrow> isascii (strip s)"
  by (auto simp: isascii_def strip_def list_all_iff dest!: set_dropWhileD)

lemma ascii_lower_less: "c < 128 \<Longrightarrow> ascii_lower c < 128"
  by (simp add: ascii_lower_def)

lemma ascii_upper_less: "c < 128 \<Longrightarrow> ascii_upper c < 128"
  by (simp add: ascii_upper_def less_imp_diff_less)

lemma isascii_ascii_title_from: "isascii s \<Longrightarrow> isascii (ascii_title_from b s)"
  by (induction s arbitrary: b) (simp_all add: isascii_def ascii_lower_less ascii_upper_less)

lemma isascii_map_ascii_lower: "isascii s \<Longrightarrow> isascii (map ascii_lower s)"
  by (induction s) (simp_all add: isascii_def ascii_lower_less)

lemma ascii_lower_idem: "ascii_lower (ascii_lower c) = ascii_lower c"
  by (simp add: ascii_lower_def)

lemma ascii_upper_idem: "ascii_upper (ascii_upper c) = ascii_upper c"
  by (simp add: ascii_upper_def) arith

lemma iscased_ascii_lower: "iscased (ascii_lower c) = iscased c"
  by (auto simp: iscased_def ascii_lower_def)

lemma iscased_ascii_upper: "iscased (ascii_upper c) = iscased c"
  by (auto simp: iscased_def ascii_upper_def)

lemma isspace_ascii_lower: "isspace (ascii_lower c) = isspace c"
  by (auto simp: isspace_def ascii_lower_def)

lemma isspace_ascii_upper: "isspace (ascii_upper c) = isspace c"
  by (auto simp: isspace_def ascii_upper_def)

lemma ascii_title_from_idem: "ascii_title_from b (ascii_title_from b s) = ascii_title_from b s"
  by (induction s arbitrary: b)
    (simp_all add: ascii_lower_idem ascii_upper_idem iscased_ascii_lower iscased_ascii_upper)

lemma ascii_title_from_Nil: "ascii_title_from b s = [] \<longleftrightarrow> s = []"
  by (cases s) simp_all

lemma isspace_hd_ascii_title_from:
  "s \<noteq> [] \<Longrightarrow> isspace (hd (ascii_title_from b s)) = isspace (hd s)"
  by (cases s) (simp_all add: isspace_ascii_lower isspace_ascii_upper)

lemma isspace_last_ascii_title_from:
  "s \<noteq> [] \<Longrightarrow> isspace (last (ascii_title_from b s)) = isspace (last s)"
  by (induction s arbitrary: b)
    (simp_all add: isspace_ascii_lower isspace_ascii_upper ascii_title_from_Nil)

lemma trimmed_strip: "trimmed (strip s)"
proof -
  let ?d = "dropWhile isspace s"
  let ?e = "dropWhile isspace (rev ?d)"
  show ?thesis
  proof (cases "?e = []")
    case True
    then show ?thesis by (simp add: trimmed_def strip_def)
  next
    case False
    have e: "\<not> isspace (hd ?e)"
      using False by (rule hd_dropWhile)
    have "rev ?d = takeWhile isspace (rev ?d) @ ?e"
      by simp
    then have "last (rev ?d) = last ?e"
      using False by (metis last_appendR)
    moreover have "?d \<noteq> []"
    proof
      assume "?d = []"
      then have "?e = []" by (simp only: rev.simps dropWhile.simps)
      with False show False by contradiction
    qed
    ultimately have "last ?e = hd ?d"
      by (simp add: last_rev)
    moreover have "\<not> isspace (hd ?d)"
      using \<open>?d \<noteq> []\<close> by (rule hd_dropWhile)
    ultimately show ?thesis
      using False e by (simp add: trimmed_def strip_def hd_rev last_rev)
  qed
qed

lemma strip_trimmed: "trimmed s \<Longrightarrow> strip s = s"
  by (cases "s = []")
    (simp_all add: trimmed_def strip_def dropWhile_eq_self_iff [THEN iffD2] hd_rev)

lemma trimmed_ascii_title_from: "trimmed s \<Longrightarrow> trimmed (ascii_title_from b s)"
  by (auto simp: trimmed_def ascii_title_from_Nil isspace_hd_ascii_title_from
      isspace_last_ascii_title_from)

lemma trimmed_map_ascii_lower: "trimmed s \<Longrightarrow> trimmed (map ascii_lower s)"
  by (auto simp: trimmed_def hd_map last_map isspace_ascii_lower)

lemma strip_strip: "strip (strip s) = strip s"
  by (simp add: strip_trimmed trimmed_strip)

lemma title_strip_ascii: "isascii s \<Longrightarrow> title (strip s) = ascii_title_from False (strip s)"
  by (simp add: title_def title_from_ascii isascii_strip)

lemma lower_strip_ascii: "isascii s \<Longrightarrow> lower (strip s) = map ascii_lower (strip s)"
  by (simp add: lower_ascii isascii_strip)

lemma isascii_title_strip: "isascii s \<Longrightarrow> isascii (title (strip s))"
  by (simp add: title_strip_ascii isascii_ascii_title_from isascii_strip)

lemma isascii_lower_strip: "isascii s \<Longrightarrow> isascii (lower (strip s))"
  by (simp add: lower_strip_ascii isascii_map_ascii_lower isascii_strip)

lemma strip_title_strip: "isascii s \<Longrightarrow> strip (title (strip s)) = title (strip s)"
  by (simp add: title_strip_ascii strip_trimmed trimmed_ascii_title_from trimmed_strip)

lemma strip_lower_strip: "isascii s \<Longrightarrow> strip (lower (strip s)) = lower (strip s)"
  by (simp add: lower_strip_ascii strip_trimmed trimmed_map_ascii_lower trimmed_strip)

lemma title_strip_idem: "isascii s \<Longrightarrow> title (strip (title (strip s))) = title (strip s)"
proof -
  assume s: "isascii s"
  have a: "strip (title (strip s)) = title (strip s)"
    using s by (rule strip_title_strip)
  have b: "title (strip s) = ascii_title_from False (strip s)"
    using s by (rule title_strip_ascii)
  have c: "isascii (ascii_title_from False (strip s))"
    using s by (simp add: isascii_ascii_title_from isascii_strip)
  have "title (strip (title (strip s))) = title (title (strip s))"
    by (simp only: a)
  also have "\<dots> = title (ascii_title_from False (strip s))"
    by (simp only: b)
  also have "\<dots> = ascii_title_from False (ascii_title_from False (strip s))"
    using c by (simp add: title_def title_from_ascii)
  also have "\<dots> = title (strip s)"
    by (simp only: ascii_title_from_idem b)
  finally show ?thesis .
qed

lemma lower_strip_idem: "isascii s \<Longrightarrow> lower (strip (lower (strip s))) = lower (strip s)"
proof -
  assume s: "isascii s"
  have a: "strip (lower (strip s)) = lower (strip s)"
    using s by (rule strip_lower_strip)
  have b: "lower (strip s) = map ascii_lower (strip s)"
    using s by (rule lower_strip_ascii)
  have c: "isascii (map ascii_lower (strip s))"
    using s by (simp add: isascii_map_ascii_lower isascii_strip)
  have "lower (strip (lower (strip s))) = lower (lower (strip s))"
    by (simp only: a)
  also have "\<dots> = lower (map ascii_lower (strip s))"
    by (simp only: b)
  also have "\<dots> = map ascii_lower (map ascii_lower (strip s))"
    using c by (rule lower_ascii)
  also have "\<dots> = lower (strip s)"
    by (simp add: ascii_lower_idem b)
  finally show ?thesis .
qed

lemma title_strip_No: "title (strip (str ''No'')) = str ''No''"
  by code_simp

lemma No_not_Maybe: "str ''No'' \<noteq> str ''Maybe''"
  by (simp add: str_def)

lemma recommend_idem: "isascii w \<Longrightarrow> recommend (recommend w) = recommend w"
  by (simp add: recommend_def title_strip_No title_strip_idem No_not_Maybe)

lemma on_rows_on_rows: "on_rows g (on_rows h f) = on_rows (\<lambda>r. g (h r)) f"
  by (simp add: on_rows_def split_def)

lemma on_rows_cong: "(\<And>r. g r = h r) \<Longrightarrow> on_rows g f = on_rows h f"
  by (simp add: on_rows_def)

lemma on_rows_cong_set: "(\<And>i r. (i, r) \<in> set f \<Longrightarrow> g r = h r) \<Longrightarrow> on_rows g f = on_rows h f"
  by (auto simp: on_rows_def)

lemma map_option_idem:
  "ascii_cell c \<Longrightarrow> (\<And>s. isascii s \<Longrightarrow> g (g s) = g s)
    \<Longrightarrow> map_option g (map_option g c) = map_option g c"
  by (cases c) (simp_all add: ascii_cell_def)

lemma normalize_text_rows:
  "normalize_text f =
     on_rows (\<lambda>r. r\<lparr>name := map_option (\<lambda>s. title (strip s)) (name r),
                     email := map_option (\<lambda>s. lower (strip s)) (email r),
                     product_category := map_option (\<lambda>s. title (strip s)) (product_category r),
                     would_recommend := map_option recommend (would_recommend r),
                     comments := map_option strip (comments r)\<rparr>) f"
  unfolding normalize_text_def Let_def on_rows_on_rows
  apply (rule on_rows_cong)
  subgoal for r
    by (cases "would_recommend r")
      (simp_all add: str_method_def recommend_def option.map_comp o_def)
  done

text \<open>
  Claim C7, as the script has it.  On a frame whose text cells are ASCII, applying the
  text normalization step (lines 109-127: trim and title-case name, product category and
  recommendation, with \<open>Maybe\<close> mapped to \<open>No\<close>; trim and lower-case email; trim
  comments) to a frame it has already been applied to changes nothing.  Beyond ASCII
  this fails: see the counterexample below.
\<close>

theorem text_normalization_idempotent:
  "ascii_frame f \<Longrightarrow> normalize_text (normalize_text f) = normalize_text f"
proof -
  assume f: "ascii_frame f"
  have row: "ascii_row r" if "(i, r) \<in> set f" for i r
    using f that by (auto simp: ascii_frame_def list_all_iff)
  show ?thesis
    unfolding normalize_text_rows on_rows_on_rows
    apply (rule on_rows_cong_set)
    subgoal for i r
      using row [of i r]
      by (simp add: ascii_row_def map_option_idem title_strip_idem lower_strip_idem
          recommend_idem strip_strip)
    done
qed

text \<open>The literal dataset is ASCII, and normalizing it twice is normalizing it once.\<close>

theorem text_normalization_idempotent_witness:
  "ascii_frame (DataFrame data)
   \<and> normalize_text (normalize_text (DataFrame data)) = normalize_text (DataFrame data)"
proof -
  have "ascii_frame (DataFrame data)"
    by code_simp
  then show ?thesis
    using text_normalization_idempotent [of "DataFrame data"] by simp
qed

text \<open>
  The claim as stated (for every text) fails beyond ASCII.  The name \<open>D\<close>, U+0130,
  \<open>L\<close>, \<open>E\<close>, \<open>K\<close> is normalized to \<open>D\<close>, \<open>i\<close>, U+0307, \<open>l\<close>, \<open>e\<close>, \<open>k\<close>:
  the lower case of U+0130 is \<open>i\<close> followed by the combining dot U+0307.  That dot has
  no case, so a second normalization title-cases the letter after it, and gives \<open>D\<close>,
  \<open>i\<close>, U+0307, \<open>L\<close>, \<open>e\<close>, \<open>k\<close>.
\<close>

theorem text_normalization_idempotent_counterexample:
  "column name (normalize_text (DataFrame [(data ! 0)\<lparr>in_name := Some [68, 304, 76, 69, 75]\<rparr>]))
     = [Some [68, 105, 775, 108, 101, 107]]
   \<and> column name (normalize_text (normalize_text
         (DataFrame [(data ! 0)\<lparr>in_name := Some [68, 304, 76, 69, 75]\<rparr>])))
     = [Some [68, 105, 775, 76, 101, 107]]
   \<and> normalize_text (normalize_text (DataFrame [(data ! 0)\<lparr>in_name := Some [68, 304, 76, 69, 75]\<rparr>]))
     \<noteq> normalize_text (DataFrame [(data ! 0)\<lparr>in_name := Some [68, 304, 76, 69, 75]\<rparr>])"
proof -
  let ?f = "DataFrame [(data ! 0)\<lparr>in_name := Some [68, 304, 76, 69, 75]\<rparr>]"
  have a: "column name (normalize_text ?f) = [Some [68, 105, 775, 108, 101, 107]]"
    by code_simp
  have b: "column name (normalize_text (normalize_text ?f)) = [Some [68, 105, 775, 76, 101, 107]]"
    by code_simp
  have "normalize_text (normalize_text ?f) \<noteq> normalize_text ?f"
  proof
    assume "normalize_text (normalize_text ?f) = normalize_text ?f"
    then have "column name (normalize_text (normalize_text ?f)) = column name (normalize_text ?f)"
      by (rule arg_cong)
    then show False
      unfolding a b by simp
  qed
  then show ?thesis using a b by blast
qed

subsection \<open>Age repair\<close>

lemma median_between:
  assumes bounds: "\<And>v. Some v \<in> set col \<Longrightarrow> lo \<le> v \<and> v \<le> hi"
    and some: "Some w \<in> set col"
  shows "\<exists>m. median col = Some m \<and> lo \<le> m \<and> m \<le> hi"
proof -
  define vs where "vs = sort (concat (map (\<lambda>c. case c of None \<Rightarrow> [] | Some v \<Rightarrow> [v]) col))"
  have set_vs: "set vs = {v. Some v \<in> set col}"
    by (auto simp: vs_def split: option.splits)
  have nonempty: "vs \<noteq> []"
    using some set_vs by auto
  have elem: "lo \<le> vs ! i \<and> vs ! i \<le> hi" if "i < length vs" for i
    using that bounds set_vs nth_mem [of i vs] by auto
  have half: "length vs div 2 < length vs"
    using nonempty by simp
  have "lo \<le> vs ! (length vs div 2) \<and> vs ! (length vs div 2) \<le> hi"
    using elem half by blast
  moreover have "lo \<le> vs ! (length vs div 2 - 1) \<and> vs ! (length vs div 2 - 1) \<le> hi"
    using elem [of "length vs div 2 - 1"] half by simp
  moreover define a where "a = (vs ! (length vs div 2 - 1) + vs ! (length vs div 2)) / 2"
  ultimately have avg: "lo \<le> a \<and> a \<le> hi"
    and mid: "lo \<le> vs ! (length vs div 2) \<and> vs ! (length vs div 2) \<le> hi"
    by (simp_all add: field_simps)
  have "median col = (if odd (length vs) then Some (vs ! (length vs div 2)) else Some a)"
    using nonempty by (simp add: median_def Let_def a_def flip: vs_def)
  then show ?thesis
    using avg mid by (cases "odd (length vs)") simp_all
qed

lemma valid_ages_bounds: "Some v \<in> set (valid_ages f) \<Longrightarrow> 0 \<le> v \<and> v \<le> 120"
  by (auto simp: valid_ages_def column_def cell_ge_def cell_le_def split: option.splits)

lemma valid_ages_member:
  "(k, r) \<in> set f \<Longrightarrow> age r = Some v \<Longrightarrow> 0 \<le> v \<Longrightarrow> v \<le> 120 \<Longrightarrow> Some v \<in> set (valid_ages f)"
  by (force simp: valid_ages_def column_def cell_ge_def cell_le_def)

lemma drop_duplicates_keeps:
  assumes "x \<in> set rows"
  shows "\<exists>k. (k, to_row x) \<in> set (drop_duplicates (DataFrame rows))"
proof -
  obtain j where j: "j < length rows" "rows ! j = x"
    using assms by (auto simp: in_set_conv_nth)
  obtain k where k: "k \<in> set (index (drop_duplicates (DataFrame rows)))" "rows ! k = rows ! j"
    using first_occurrence_unique [OF j(1)] by (auto simp: index_drop_duplicates)
  then obtain r where r: "(k, r) \<in> set (drop_duplicates (DataFrame rows))"
    by (auto simp: index_def)
  then have "r = to_row (rows ! k)"
    using drop_duplicates_rows by blast
  then show ?thesis using r k j by auto
qed

lemma repaired_in_range:
  "0 \<le> m \<Longrightarrow> m \<le> 120 \<Longrightarrow> cell_ge (repaired (Some m) (Some v)) 0 \<and> cell_le (repaired (Some m) (Some v)) 120"
  by (auto simp: repaired_def cell_ge_def cell_le_def cell_lt_def cell_gt_def)

text \<open>
  Claim C4, as the script has it.  The run (with \<open>widen\<close>) succeeds; the replacement
  value is the median of the ages in \<open>[0, 120]\<close> of the frame after deduplication and imputation; the age of
  the cleaned row with index label \<open>k\<close> is that median when the age of input row \<open>k\<close>
  is below 0 or above 120, and the age of input row \<open>k\<close> otherwise.  When at least one
  input row has an age in \<open>[0, 120]\<close>, every age of the cleaned frame lies in
  \<open>[0, 120]\<close>.  Without such a row the median is \<^verbatim>\<open>NaN\<close> (see the counterexample below).
\<close>

theorem age_repair:
  "\<exists>out. script widen P rows = Inr out
     \<and> index (cleaned out) = index (drop_duplicates (DataFrame rows))
     \<and> column age (cleaned out)
         = map (\<lambda>k. repaired (median (valid_ages
                   (fill_name_email (fill_purchase_amount (drop_duplicates (DataFrame rows))))))
                 (Some (of_int (in_age (rows ! k)))))
             (index (cleaned out))
     \<and> ((\<exists>x \<in> set rows. 0 \<le> in_age x \<and> in_age x \<le> 120) \<longrightarrow>
          (\<forall>a \<in> set (column age (cleaned out)). cell_ge a 0 \<and> cell_le a 120))"
proof -
  let ?D = "drop_duplicates (DataFrame rows)"
  obtain out where out: "script widen P rows = Inr out" "cleaned out = dated P (steps ?D)"
    using script_cleaned by blast
  have idx: "index (cleaned out) = index ?D"
    by (simp add: out index_dated index_steps)
  have col: "column age (cleaned out)
      = map (\<lambda>k. repaired (median (valid_ages (fill_name_email (fill_purchase_amount ?D))))
                (Some (of_int (in_age (rows ! k))))) (index (cleaned out))"
    by (simp add: out column_dated column_age_steps index_dated index_steps
        column_drop_duplicates to_row_def o_def)
  have range: "\<forall>a \<in> set (column age (cleaned out)). cell_ge a 0 \<and> cell_le a 120"
    if "\<exists>x \<in> set rows. 0 \<le> in_age x \<and> in_age x \<le> 120"
  proof -
    from that obtain x where x: "x \<in> set rows" "0 \<le> in_age x" "in_age x \<le> 120"
      by blast
    obtain k where k: "(k, to_row x) \<in> set ?D"
      using drop_duplicates_keeps [OF x(1)] by blast
    have "Some (of_int (in_age x)) \<in> set (valid_ages ?D)"
      using k x(2,3) by (intro valid_ages_member [of k "to_row x"]) (simp_all add: to_row_def)
    then obtain m where m: "median (valid_ages ?D) = Some m" "0 \<le> m" "m \<le> 120"
      using median_between [of "valid_ages ?D" 0 120] valid_ages_bounds by blast
    show ?thesis
      unfolding col valid_ages_filled m(1)
      using repaired_in_range [OF m(2,3)] by auto
  qed
  show ?thesis using out(1) idx col range by blast
qed

text \<open>On the literal dataset the ages 150 and -5 are replaced by 27.5, the median of 25, 25, 30, 35.\<close>

theorem age_repair_witness:
  "case script widen first_format_parser data of
     Inl e \<Rightarrow> False
   | Inr out \<Rightarrow> column age (cleaned out)
       = [Some 25, Some (55 / 2), Some 25, Some 30, Some (55 / 2), Some 35]"
proof -
  have "index (drop_duplicates (DataFrame data)) = [0, 1, 2, 3, 4, 5]"
    by code_simp
  moreover have "map (\<lambda>k. repaired (median (valid_ages
                   (fill_name_email (fill_purchase_amount (drop_duplicates (DataFrame data))))))
                 (Some (of_int (in_age (data ! k))))) [0, 1, 2, 3, 4, 5]
       = [Some 25, Some (55 / 2), Some 25, Some 30, Some (55 / 2), Some 35]"
    by code_simp
  moreover have "data ! 0 \<in> set data" "in_age (data ! 0) = 25"
    by (simp_all add: data_def mk_def)
  then have "\<exists>x \<in> set data. 0 \<le> in_age x \<and> in_age x \<le> 120"
    by (intro bexI [of _ "data ! 0"]) simp_all
  ultimately show ?thesis
    using age_repair [of first_format_parser data] by auto
qed

text \<open>
  The claim as stated (every cleaned age in \<open>[0, 120]\<close> for every input) fails on an
  input whose ages are all invalid: the median of no value is \<^verbatim>\<open>NaN\<close>, and the invalid
  age is replaced by \<^verbatim>\<open>NaN\<close>, which is not in \<open>[0, 120]\<close>.
\<close>

theorem age_repair_counterexample:
  "case script widen first_format_parser
          [mk 4 ''Alice Brown'' (- 5) ''alice@email.com'' ''17-01-2024'' 6 ''home & garden''
             (Some 450) ''NO'' ''Poor delivery''] of
     Inl e \<Rightarrow> False
   | Inr out \<Rightarrow> column age (cleaned out) = [None]
       \<and> \<not> list_all (\<lambda>a. cell_ge a 0 \<and> cell_le a 120) (column age (cleaned out))"
proof -
  let ?rows = "[mk 4 ''Alice Brown'' (- 5) ''alice@email.com'' ''17-01-2024'' 6 ''home & garden''
             (Some 450) ''NO'' ''Poor delivery'']"
  have "column age (dated first_format_parser (steps (drop_duplicates (DataFrame ?rows)))) = [None]"
    by code_simp
  moreover have "\<not> cell_ge None 0"
    by (simp add: cell_ge_def)
  ultimately show ?thesis
    using script_cleaned [of first_format_parser ?rows] by auto
qed

subsection \<open>The literal dataset, end to end\<close>

text \<open>
  Claim C1, as the script has it.  On the six literal rows the run (with \<open>widen\<close>)
  succeeds and the cleaned frame has all six rows: no row is an exact duplicate of an earlier one (the
  first and third rows differ in the casing of the product category, and deduplication
  comes before text normalization), so the script reports 0 removed rows.  The ages 150
  and -5 are both replaced by 27.5, the median of the valid ages 25, 25, 30, 35; the
  ratings in range are unchanged and the rating 6 becomes 5; the missing purchase amount
  is replaced by 299.99, the median of the five known amounts; each product category has
  one casing.
\<close>

theorem end_to_end_literal:
  "\<exists>out. script widen P data = Inr out
     \<and> index (cleaned out) = [0, 1, 2, 3, 4, 5]
     \<and> removed_duplicates (snd out) = 0
     \<and> column age (cleaned out) = [Some 25, Some (55 / 2), Some 25, Some 30, Some (55 / 2), Some 35]
     \<and> column satisfaction_rating (cleaned out) = [5, 4, 5, 3, 5, 2]
     \<and> column purchase_amount (cleaned out)
         = [Some (29999 / 100), Some (895 / 10), Some (29999 / 100), Some 25, Some 450,
            Some (29999 / 100)]
     \<and> column product_category (cleaned out)
         = [Some (str ''Electronics''), Some (str ''Clothing''), Some (str ''Electronics''), Some (str ''Books''),
            Some (str ''Home & Garden''), Some (str ''Clothing'')]"
proof -
  let ?D = "drop_duplicates (DataFrame data)"
  obtain out where out: "script widen P data = Inr out" "cleaned out = dated P (steps ?D)"
      "snd out = \<lparr>removed_duplicates = length (DataFrame data) - length ?D,
           original_rows = length (DataFrame data),
           cleaned_rows = length (dated P (steps ?D)),
           missing_fixed = isnull_sum (DataFrame data),
           ages_corrected = invalid_ages (DataFrame data),
           ratings_fixed = invalid_ratings (DataFrame data)\<rparr>"
    using script_cleaned by blast
  have "index ?D = [0, 1, 2, 3, 4, 5]"
    by code_simp
  then have "index (cleaned out) = [0, 1, 2, 3, 4, 5]"
    by (simp add: out index_dated index_steps)
  moreover have "length (DataFrame data) - length ?D = 0"
    by code_simp
  then have "removed_duplicates (snd out) = 0"
    by (simp add: out)
  moreover have "column age (steps ?D)
      = [Some 25, Some (55 / 2), Some 25, Some 30, Some (55 / 2), Some 35]"
    by code_simp
  then have "column age (cleaned out)
      = [Some 25, Some (55 / 2), Some 25, Some 30, Some (55 / 2), Some 35]"
    by (simp add: out column_dated)
  moreover have "column satisfaction_rating (steps ?D) = [5, 4, 5, 3, 5, 2]"
    by code_simp
  then have "column satisfaction_rating (cleaned out) = [5, 4, 5, 3, 5, 2]"
    by (simp add: out column_dated)
  moreover have "column purchase_amount (steps ?D)
      = [Some (29999 / 100), Some (895 / 10), Some (29999 / 100), Some 25, Some 450,
         Some (29999 / 100)]"
    by code_simp
  then have "column purchase_amount (cleaned out)
      = [Some (29999 / 100), Some (895 / 10), Some (29999 / 100), Some 25, Some 450,
         Some (29999 / 100)]"
    by (simp add: out column_dated)
  moreover have "column product_category (steps ?D)
      = [Some (str ''Electronics''), Some (str ''Clothing''), Some (str ''Electronics''), Some (str ''Books''),
         Some (str ''Home & Garden''), Some (str ''Clothing'')]"
    by code_simp
  then have "column product_category (cleaned out)
      = [Some (str ''Electronics''), Some (str ''Clothing''), Some (str ''Electronics''), Some (str ''Books''),
         Some (str ''Home & Garden''), Some (str ''Clothing'')]"
    by (simp add: out column_dated)
  ultimately show ?thesis using out(1) by blast
qed

text \<open>
  The claim as stated fails on the literal dataset: the cleaned frame does not have 5
  rows, the age of the row with age -5 (label 4) is not 30, and the missing purchase
  amount (label 5) is not the median of the four distinct known amounts.
\<close>

theorem end_to_end_literal_counterexample:
  "case script widen first_format_parser data of
     Inl e \<Rightarrow> False
   | Inr out \<Rightarrow>
       length (cleaned out) \<noteq> 5
       \<and> column age (filter (\<lambda>(k, r). k = 4) (cleaned out)) \<noteq> [Some 30]
       \<and> column purchase_amount (filter (\<lambda>(k, r). k = 5) (cleaned out))
           \<noteq> [median [Some (29999 / 100), Some (895 / 10), Some 25, Some 450]]"
proof -
  let ?C = "dated first_format_parser (steps (drop_duplicates (DataFrame data)))"
  have "length ?C = 6"
    by code_simp
  moreover have "column age (filter (\<lambda>(k, r). k = 4) ?C) = [Some (55 / 2)]"
    by code_simp
  moreover have "column purchase_amount (filter (\<lambda>(k, r). k = 5) ?C) = [Some (29999 / 100)]"
    by code_simp
  moreover have "median [Some (29999 / 100), Some (895 / 10), Some 25, Some 450] = Some (38949 / 200)"
    by code_simp
  ultimately show ?thesis
    using script_cleaned [of first_format_parser data] by auto
qed

subsection \<open>Empty strings are not missing values\<close>

text \<open>
  Claim C10.  \<^verbatim>\<open>fillna\<close> replaces a missing cell only: an empty string is a present
  value and is left alone.  The literal dataset has an empty name and an empty email but
  no missing one, so the imputation of lines 76-77 changes neither column, the empty
  strings are still empty in the cleaned frame, and neither placeholder occurs in it.
\<close>

theorem empty_text_not_imputed:
  "\<exists>out. script widen P data = Inr out
     \<and> fillna (Some (str ''Unknown Customer'')) (Some (str '''')) = Some (str '''')
     \<and> fillna (Some (str ''no_email@unknown.com'')) (Some (str '''')) = Some (str '''')
     \<and> fillna (Some (str ''Unknown Customer'')) None = Some (str ''Unknown Customer'')
     \<and> column name (fill_name_email (DataFrame data)) = column name (DataFrame data)
     \<and> column email (fill_name_email (DataFrame data)) = column email (DataFrame data)
     \<and> column name (cleaned out)
         = [Some (str ''John Smith''), Some (str ''Jane Doe''), Some (str ''John Smith''), Some (str ''Bob Johnson''),
            Some (str ''Alice Brown''), Some (str '''')]
     \<and> column email (cleaned out)
         = [Some (str ''john@email.com''), Some (str ''jane@email.com''), Some (str ''john@email.com''), Some (str ''''),
            Some (str ''alice@email.com''), Some (str ''test@email.com'')]
     \<and> Some (str ''Unknown Customer'') \<notin> set (column name (cleaned out))
     \<and> Some (str ''no_email@unknown.com'') \<notin> set (column email (cleaned out))"
proof -
  let ?D = "drop_duplicates (DataFrame data)"
  obtain out where out: "script widen P data = Inr out" "cleaned out = dated P (steps ?D)"
    using script_cleaned by blast
  have names: "column name (steps ?D)
      = [Some (str ''John Smith''), Some (str ''Jane Doe''), Some (str ''John Smith''), Some (str ''Bob Johnson''),
         Some (str ''Alice Brown''), Some (str '''')]"
    by code_simp
  have emails: "column email (steps ?D)
      = [Some (str ''john@email.com''), Some (str ''jane@email.com''), Some (str ''john@email.com''), Some (str ''''),
         Some (str ''alice@email.com''), Some (str ''test@email.com'')]"
    by code_simp
  have n: "column name (cleaned out)
      = [Some (str ''John Smith''), Some (str ''Jane Doe''), Some (str ''John Smith''), Some (str ''Bob Johnson''),
         Some (str ''Alice Brown''), Some (str '''')]"
    by (simp add: out column_dated names)
  have e: "column email (cleaned out)
      = [Some (str ''john@email.com''), Some (str ''jane@email.com''), Some (str ''john@email.com''), Some (str ''''),
         Some (str ''alice@email.com''), Some (str ''test@email.com'')]"
    by (simp add: out column_dated emails)
  have "column name (fill_name_email (DataFrame data)) = column name (DataFrame data)"
    "column email (fill_name_email (DataFrame data)) = column email (DataFrame data)"
    by code_simp+
  moreover have "Some (str ''Unknown Customer'') \<notin> set (column name (cleaned out))"
    unfolding n by code_simp
  moreover have "Some (str ''no_email@unknown.com'') \<notin> set (column email (cleaned out))"
    unfolding e by code_simp
  ultimately show ?thesis
    using out(1) n e by (simp add: fillna_def)
qed

subsection \<open>Date normalization\<close>

text \<open>
  Claim C2 does not hold of the script, which passes the whole column to
  \<^verbatim>\<open>pd.to_datetime\<close> without a format.  With the format inferred from the first string
  (\<open>first_format_parser\<close>), the literal dataset keeps only its three ISO dates: the US
  slash, the dash day-first and the slash year-first dates become \<^verbatim>\<open>NaT\<close>.  And a
  column that starts with \<open>05-01-2024\<close> is read month-first, as 1 May 2024, where the
  day-first reading \<^verbatim>\<open>DD-MM-YYYY\<close> of the claim is 5 January 2024.
\<close>

theorem date_normalization_fails:
  "(case script widen first_format_parser data of
      Inl e \<Rightarrow> False
    | Inr out \<Rightarrow> column survey_date (cleaned out)
        = [Timestamp 2024 1 15, NaT, Timestamp 2024 1 15, Timestamp 2024 1 17, NaT, NaT])
   \<and> (case script widen first_format_parser
            [mk 7 ''Carol White'' 41 ''carol@email.com'' ''05-01-2024'' 4 ''Books''
               (Some 10) ''Yes'' ''''] of
         Inl e \<Rightarrow> False
       | Inr out \<Rightarrow> column survey_date (cleaned out) = [Timestamp 2024 5 1])
   \<and> strptime (DMY (of_char CHR ''-'')) (str ''05-01-2024'') = Some (2024, 1, 5)"
proof -
  let ?rows = "[mk 7 ''Carol White'' 41 ''carol@email.com'' ''05-01-2024'' 4 ''Books''
               (Some 10) ''Yes'' '''']"
  have "column survey_date (dated first_format_parser (steps (drop_duplicates (DataFrame data))))
      = [Timestamp 2024 1 15, NaT, Timestamp 2024 1 15, Timestamp 2024 1 17, NaT, NaT]"
    by code_simp
  then have a: "case script widen first_format_parser data of
      Inl e \<Rightarrow> False
    | Inr out \<Rightarrow> column survey_date (cleaned out)
        = [Timestamp 2024 1 15, NaT, Timestamp 2024 1 15, Timestamp 2024 1 17, NaT, NaT]"
    using script_cleaned [of first_format_parser data] by auto
  have "column survey_date (dated first_format_parser (steps (drop_duplicates (DataFrame ?rows))))
      = [Timestamp 2024 5 1]"
    by code_simp
  then have b: "case script widen first_format_parser ?rows of
         Inl e \<Rightarrow> False
       | Inr out \<Rightarrow> column survey_date (cleaned out) = [Timestamp 2024 5 1]"
    using script_cleaned [of first_format_parser ?rows] by auto
  have c: "strptime (DMY (of_char CHR ''-'')) (str ''05-01-2024'') = Some (2024, 1, 5)"
    by code_simp
  show ?thesis using a b c by blast
qed

end
